theory Spec2Isabelle
  imports Complex_Main
begin

section \<open>Python values, strings and exceptions\<close>

text \<open>
  A Python \<open>str\<close> is a sequence of Unicode code points, so it is modelled as a list of
  natural numbers.  Literals of the source are written with \<open>ascii\<close> for their ASCII part
  and with explicit code points for the Chinese words the portal uses.
\<close>

type_synonym pystr = "nat list"

definition ascii :: "string \<Rightarrow> pystr" where
  "ascii s = map of_char s"

definition dq :: pystr where
  \<comment> \<open>the double quote character\<close>
  "dq = [34]"

definition sq :: pystr where
  \<comment> \<open>the single quote character\<close>
  "sq = [39]"

definition zh_rate :: pystr where
  \<comment> \<open>U+8BC4 U+4EF7, the label of the "rate" button\<close>
  "zh_rate = [35780, 20215]"

definition zh_confirm_ok :: pystr where
  \<comment> \<open>U+786E U+5B9A\<close>
  "zh_confirm_ok = [30830, 23450]"



definition zh_system_notice :: pystr where
  \<comment> \<open>U+7CFB U+7EDF U+63D0 U+793A\<close>
  "zh_system_notice = [31995, 32479, 25552, 31034]"

definition zh_next_page_a :: pystr where
  \<comment> \<open>U+540E U+4E00 U+9875\<close>
  "zh_next_page_a = [21518, 19968, 39029]"

definition zh_next_page_b :: pystr where
  \<comment> \<open>U+4E0B U+4E00 U+9875\<close>
  "zh_next_page_b = [19979, 19968, 39029]"

definition zh_very_satisfied :: pystr where
  \<comment> \<open>U+5F88 U+6EE1 U+610F, the default \<open>rating_text\<close>\<close>
  "zh_very_satisfied = [24456, 28385, 24847]"

text \<open>
  The exception classes the program raises, catches or receives from Playwright and the
  standard library.  All of them are subclasses of \<open>Exception\<close>, so a handler
  \<open>except Exception\<close> catches every value of this type.
\<close>

datatype exn =
    PlaywrightTimeoutError
  | PlaywrightError
  | AssertionError
  | TimeoutError
  | RuntimeError
  | ValueError
  | KeyError
  | IndexError
  | AttributeError
  | TypeError

text \<open>The values \<open>yaml.safe_load\<close> produces for a configuration document.\<close>

datatype pyval =
    PNone
  | PBool bool
  | PInt int
  | PFloat real
  | PStr pystr
  | PList "pyval list"
  | PDict "(pyval \<times> pyval) list"

subsection \<open>String operations\<close>

definition py_isspace :: "nat \<Rightarrow> bool" where
  \<comment> \<open>the code points for which \<open>str.isspace\<close> holds\<close>
  "py_isspace c = (c \<in> set [9, 10, 11, 12, 13, 28, 29, 30, 31, 32, 133, 160, 5760,
      8192, 8193, 8194, 8195, 8196, 8197, 8198, 8199, 8200, 8201, 8202,
      8232, 8233, 8239, 8287, 12288])"

definition strip :: "pystr \<Rightarrow> pystr" where
  "strip s = rev (dropWhile py_isspace (rev (dropWhile py_isspace s)))"

definition replace_newline :: "pystr \<Rightarrow> pystr" where
  \<comment> \<open>\<open>s.replace("\n", " ")\<close>\<close>
  "replace_newline s = map (\<lambda>c. if c = 10 then 32 else c) s"

definition startswith :: "pystr \<Rightarrow> pystr \<Rightarrow> bool" where
  "startswith s sub = (take (length sub) s = sub)"

fun contains :: "pystr \<Rightarrow> pystr \<Rightarrow> bool" where
  \<comment> \<open>\<open>sub in s\<close>\<close>
  "contains [] sub = (sub = [])"
| "contains (c # cs) sub = (startswith (c # cs) sub \<or> contains cs sub)"

section \<open>The browser as seen through Playwright\<close>

text \<open>
  A page has frames; the scopes the program searches are the page itself and its frames.
  The number of a frame stands for the identity of the Python object, which is what
  \<open>frame == page.main_frame\<close> compares.
\<close>

datatype frame = Frame (frame_id: nat) (frame_url: pystr)

datatype scope = SPage | SFrame frame

datatype scope_name = PageName | FrameName nat pystr

text \<open>
  Locators are lazy descriptions of elements: building one touches nothing, only the
  queries and actions on it do.  \<open>Root s\<close> is the page or frame object itself, from
  which \<open>.locator(selector)\<close> starts.
\<close>

datatype locator =
    Root scope
  | Loc locator pyval
  | First locator
  | Nth locator int
  | FilterNameRe locator
  | OrLoc locator locator

datatype handle = Handle nat

datatype target = OnLocator locator | OnHandle handle

datatype js = JsElClick | JsDispatchClick

record box =
  box_x :: real
  box_y :: real
  box_width :: real
  box_height :: real

text \<open>
  The calls that act on the browser or let time pass.  Timeouts are in milliseconds,
  \<open>None\<close> is Playwright's default; \<open>Sleep\<close> carries seconds as \<open>time.sleep\<close> does.
\<close>

datatype event =
    Click target "nat option" bool
  | ScrollIntoView target nat
  | Hover target nat
  | Evaluate target js
  | CheckBox locator bool
  | Fill locator pystr
  | KeyboardPress pystr
  | Sleep real
  | WaitForTimeout nat
  | ExpectVisible locator "nat option"
  | ExpectHidden locator "nat option"
  | Goto pystr pystr
  | PrintWaiting "pystr option"

text \<open>
  The environment of the program: the browser with the portal's page in it, the clock,
  the random source and the Unicode tables of the Python runtime.  Its state \<open>'e\<close> is
  arbitrary.  Reading the document (counting matches, visibility, attributes, text,
  bounding boxes) does not change the state; the calls of \<open>event\<close> do, and each call of
  Playwright answers with success or with an exception.  \<open>time.sleep\<close> lets the state
  move on and does not fail.
\<close>

record 'e runtime =
  rt_frames :: "'e \<Rightarrow> frame list"
  rt_main_frame :: "'e \<Rightarrow> frame"
  rt_count :: "'e \<Rightarrow> locator \<Rightarrow> exn + nat"
  rt_is_visible :: "'e \<Rightarrow> locator \<Rightarrow> exn + bool"
  rt_get_attribute :: "'e \<Rightarrow> target \<Rightarrow> pystr \<Rightarrow> exn + pystr option"
  rt_inner_text :: "'e \<Rightarrow> target \<Rightarrow> exn + pystr"
  rt_bounding_box :: "'e \<Rightarrow> target \<Rightarrow> exn + box option"
  rt_element_handles :: "'e \<Rightarrow> locator \<Rightarrow> exn + handle list"
  rt_tab_info :: "'e \<Rightarrow> locator \<Rightarrow> exn + (pystr option \<times> pystr) list"
  rt_monotonic :: "'e \<Rightarrow> real"
  rt_perform :: "event \<Rightarrow> 'e \<Rightarrow> (exn + unit) \<times> 'e"
  rt_sleep :: "real \<Rightarrow> 'e \<Rightarrow> 'e"
  rt_random :: "'e \<Rightarrow> nat \<times> 'e"
  rt_str_lower :: "pystr \<Rightarrow> pystr"
  rt_digit :: "nat \<Rightarrow> nat option"

text \<open>The state of a run: the environment and the calls performed so far, oldest first.\<close>

record 'e world =
  env :: 'e
  trace :: "event list"

section \<open>Programs: state, exceptions and non-termination\<close>

text \<open>
  A program takes the world and either does not return (\<open>None\<close>) or returns the new
  world with a value (\<open>Inr\<close>) or a raised exception (\<open>Inl\<close>).
\<close>

type_synonym ('e, 'a) prog = "'e world \<Rightarrow> ((exn + 'a) \<times> 'e world) option"

definition ret :: "'a \<Rightarrow> ('e, 'a) prog" where
  "ret x = (\<lambda>w. Some (Inr x, w))"

definition raise :: "exn \<Rightarrow> ('e, 'a) prog" where
  "raise ex = (\<lambda>w. Some (Inl ex, w))"

definition bnd :: "('e, 'a) prog \<Rightarrow> ('a \<Rightarrow> ('e, 'b) prog) \<Rightarrow> ('e, 'b) prog" where
  "bnd m f = (\<lambda>w. case m w of
       None \<Rightarrow> None
     | Some (Inl ex, w') \<Rightarrow> Some (Inl ex, w')
     | Some (Inr x, w') \<Rightarrow> f x w')"

definition try_except :: "('e, 'a) prog \<Rightarrow> (exn \<Rightarrow> ('e, 'a) prog) \<Rightarrow> ('e, 'a) prog" where
  "try_except m h = (\<lambda>w. case m w of
       None \<Rightarrow> None
     | Some (Inl ex, w') \<Rightarrow> h ex w'
     | Some (Inr x, w') \<Rightarrow> Some (Inr x, w'))"

definition except_timeout :: "('e, 'a) prog \<Rightarrow> ('e, 'a) prog \<Rightarrow> ('e, 'a) prog" where
  \<comment> \<open>\<open>try: m  except PlaywrightTimeoutError: h\<close>\<close>
  "except_timeout m h =
     try_except m (\<lambda>ex. if ex = PlaywrightTimeoutError then h else raise ex)"

definition best_effort :: "('e, 'a) prog \<Rightarrow> ('e, unit) prog" where
  \<comment> \<open>\<open>try: m  except Exception: pass\<close>\<close>
  "best_effort m = try_except (bnd m (\<lambda>_. ret ())) (\<lambda>_. ret ())"

definition query :: "('e \<Rightarrow> exn + 'a) \<Rightarrow> ('e, 'a) prog" where
  "query q = (\<lambda>w. Some (q (env w), w))"

definition act :: "'e runtime \<Rightarrow> event \<Rightarrow> ('e, unit) prog" where
  "act R ev = (\<lambda>w. case rt_perform R ev (env w) of
       (r, e') \<Rightarrow> Some (r, \<lparr>env = e', trace = trace w @ [ev]\<rparr>))"

text \<open>
  A \<open>while\<close> loop: the body maps the loop variables to \<open>Inl\<close> of their next values (go
  round again) or to \<open>Inr\<close> of the loop's result (\<open>break\<close>, \<open>return\<close>, or the condition
  failing).  A loop that goes round forever has the value \<open>None\<close>.
\<close>

partial_function (option) loop ::
  "('s \<Rightarrow> ('e, 's + 'r) prog) \<Rightarrow> 's \<Rightarrow> 'e world \<Rightarrow> ((exn + 'r) \<times> 'e world) option" where
  "loop body s w = (case body s w of
       None \<Rightarrow> None
     | Some (Inl ex, w') \<Rightarrow> Some (Inl ex, w')
     | Some (Inr (Inl s'), w') \<Rightarrow> loop body s' w'
     | Some (Inr (Inr r), w') \<Rightarrow> Some (Inr r, w'))"

subsection \<open>The Playwright and library calls the program makes\<close>

definition count :: "'e runtime \<Rightarrow> locator \<Rightarrow> ('e, nat) prog" where
  "count R l = query (\<lambda>e. rt_count R e l)"

definition is_visible :: "'e runtime \<Rightarrow> locator \<Rightarrow> ('e, bool) prog" where
  "is_visible R l = query (\<lambda>e. rt_is_visible R e l)"

definition get_attribute :: "'e runtime \<Rightarrow> target \<Rightarrow> pystr \<Rightarrow> ('e, pystr option) prog" where
  "get_attribute R t a = query (\<lambda>e. rt_get_attribute R e t a)"

definition inner_text :: "'e runtime \<Rightarrow> target \<Rightarrow> ('e, pystr) prog" where
  "inner_text R t = query (\<lambda>e. rt_inner_text R e t)"

definition bounding_box :: "'e runtime \<Rightarrow> target \<Rightarrow> ('e, box option) prog" where
  \<comment> \<open>a page or frame object has no attribute \<open>bounding_box\<close>\<close>
  "bounding_box R t = (case t of
       OnLocator (Root s) \<Rightarrow> raise AttributeError
     | _ \<Rightarrow> query (\<lambda>e. rt_bounding_box R e t))"

definition element_handles :: "'e runtime \<Rightarrow> locator \<Rightarrow> ('e, handle list) prog" where
  "element_handles R l = query (\<lambda>e. rt_element_handles R e l)"

definition first_of :: "locator \<Rightarrow> ('e, locator) prog" where
  \<comment> \<open>\<open>x.first\<close>; a page or frame object has no attribute \<open>first\<close>\<close>
  "first_of l = (case l of Root s \<Rightarrow> raise AttributeError | _ \<Rightarrow> ret (First l))"

definition monotonic :: "'e runtime \<Rightarrow> ('e, real) prog" where
  "monotonic R = query (\<lambda>e. Inr (rt_monotonic R e))"

definition sleep :: "'e runtime \<Rightarrow> real \<Rightarrow> ('e, unit) prog" where
  \<comment> \<open>\<open>time.sleep\<close> rejects a negative length\<close>
  "sleep R secs = (if secs < 0 then raise ValueError
     else (\<lambda>w. Some (Inr (), \<lparr>env = rt_sleep R secs (env w), trace = trace w @ [Sleep secs]\<rparr>)))"

definition randint :: "'e runtime \<Rightarrow> int \<Rightarrow> int \<Rightarrow> ('e, int) prog" where
  \<comment> \<open>\<open>random.randint(a, b)\<close>: an integer of the closed range, \<open>ValueError\<close> when it is empty\<close>
  "randint R a b = (if b < a then raise ValueError
     else (\<lambda>w. case rt_random R (env w) of
        (r, e') \<Rightarrow> Some (Inr (a + int r mod (b - a + 1)), w\<lparr>env := e'\<rparr>)))"

definition choice :: "'e runtime \<Rightarrow> 'a list \<Rightarrow> ('e, 'a) prog" where
  \<comment> \<open>\<open>random.choice(seq)\<close>: \<open>IndexError\<close> on an empty sequence\<close>
  "choice R xs = (if xs = [] then raise IndexError
     else (\<lambda>w. case rt_random R (env w) of
        (r, e') \<Rightarrow> Some (Inr (xs ! (r mod length xs)), w\<lparr>env := e'\<rparr>)))"

section \<open>Configuration (config.py)\<close>

text \<open>
  The dataclasses of \<open>config.py\<close>.  Python does not enforce the annotations: a selector
  read from the document is stored as it is, so the selector fields hold any value;
  the other fields are converted by \<open>str\<close>, \<open>int\<close> or \<open>bool\<close> at load time.
\<close>

record selectors =
  table :: pyval
  pending_button :: pyval
  modal :: pyval
  teacher_tabs :: pyval
  active_block :: pyval
  question_block :: pyval
  comment_textarea :: pyval
  done_text :: pyval
  submit_button :: pyval
  success_confirm_button :: pyval

record delays =
  min_ms :: int
  max_ms :: int

record browser_config =
  headless :: bool
  slow_mo_ms :: int

record app_config =
  login_url :: pystr
  list_url :: pystr
  browser :: browser_config
  rating_text :: pystr
  comment_templates :: "pystr list"
  delays_ms :: delays
  manual_submit_max_wait_s :: int
  selectors :: selectors

section \<open>Scope resolution and table location (assistant.py)\<close>

text \<open>
  Calls of \<open>logger.info\<close> are left out of the model: they write to a log no function of
  the program reads.  Where an argument of such a call queries the page, the query is
  kept, since it can raise.
\<close>

definition iter_scopes :: "'e runtime \<Rightarrow> 'e \<Rightarrow> (scope_name \<times> scope) list" where
  \<comment> \<open>the list \<open>scopes\<close> built at the head of \<open>_resolve_scope\<close> and \<open>_resolve_scope_fast\<close>, and
      the generator \<open>_iter_scopes\<close>\<close>
  "iter_scopes R e =
     (PageName, SPage) #
     map (\<lambda>(i, f). (FrameName i (frame_url f), SFrame f))
       (filter (\<lambda>(i, f). \<not> frame_id f = frame_id (rt_main_frame R e))
          (enumerate 0 (rt_frames R e)))"

definition scopes :: "'e runtime \<Rightarrow> ('e, (scope_name \<times> scope) list) prog" where
  "scopes R = query (\<lambda>e. Inr (iter_scopes R e))"

definition selector_hits :: "'e runtime \<Rightarrow> scope \<Rightarrow> pyval \<Rightarrow> ('e, bool) prog" where
  \<comment> \<open>\<open>try: if scope.locator(sel).count(): return scope  except Exception: continue\<close>\<close>
  "selector_hits R sc sel =
     try_except (bnd (count R (Loc (Root sc) sel)) (\<lambda>n. ret (n \<noteq> 0))) (\<lambda>_. ret False)"

fun first_scope :: "'e runtime \<Rightarrow> pyval \<Rightarrow> (scope_name \<times> scope) list \<Rightarrow> ('e, scope option) prog" where
  "first_scope R sel [] = ret None"
| "first_scope R sel ((name, sc) # rest) =
     bnd (selector_hits R sc sel)
       (\<lambda>hit. if hit then ret (Some sc) else first_scope R sel rest)"

definition sel_table_has_rate_button :: pyval where
  \<comment> \<open>\<open>table:has(button:has-text("..."))\<close> with the "rate" label\<close>
  "sel_table_has_rate_button =
     PStr (ascii ''table:has(button:has-text('' @ dq @ zh_rate @ dq @ ascii ''))'')"

definition sel_rate_button_or_link :: pyval where
  \<comment> \<open>\<open>button:has-text("..."), a:has-text("...")\<close> with the "rate" label\<close>
  "sel_rate_button_or_link =
     PStr (ascii ''button:has-text('' @ dq @ zh_rate @ dq @ ascii ''), a:has-text(''
           @ dq @ zh_rate @ dq @ ascii '')'')"

definition sel_table_has_rate_text :: pyval where
  \<comment> \<open>\<open>table:has-text("...")\<close> with the "rate" label\<close>
  "sel_table_has_rate_text =
     PStr (ascii ''table:has-text('' @ dq @ zh_rate @ dq @ ascii '')'')"

definition sel_ancestor_table :: pyval where
  "sel_ancestor_table = PStr (ascii ''xpath=ancestor::table[1]'')"

definition resolve_scope :: "'e runtime \<Rightarrow> app_config \<Rightarrow> ('e, scope) prog" where
  "resolve_scope R cfg =
     bnd (scopes R) (\<lambda>scs.
     bnd (first_scope R (table (selectors cfg)) scs) (\<lambda>r1. case r1 of Some sc \<Rightarrow> ret sc | None \<Rightarrow>
     bnd (first_scope R sel_table_has_rate_button scs) (\<lambda>r2. case r2 of Some sc \<Rightarrow> ret sc | None \<Rightarrow>
     bnd (first_scope R sel_table_has_rate_button scs) (\<lambda>r3. case r3 of Some sc \<Rightarrow> ret sc | None \<Rightarrow>
     bnd (first_scope R sel_table_has_rate_button scs) (\<lambda>r4. case r4 of Some sc \<Rightarrow> ret sc | None \<Rightarrow>
     ret SPage)))))"

definition resolve_scope_fast :: "'e runtime \<Rightarrow> app_config \<Rightarrow> ('e, scope) prog" where
  "resolve_scope_fast R cfg =
     bnd (scopes R) (\<lambda>scs.
     bnd (first_scope R (table (selectors cfg)) scs) (\<lambda>r1. case r1 of Some sc \<Rightarrow> ret sc | None \<Rightarrow>
     bnd (first_scope R sel_table_has_rate_button scs) (\<lambda>r2. case r2 of Some sc \<Rightarrow> ret sc | None \<Rightarrow>
     ret SPage)))"

definition first_if_any :: "'e runtime \<Rightarrow> locator \<Rightarrow> locator \<Rightarrow> ('e, locator option) prog
    \<Rightarrow> ('e, locator option) prog" where
  \<comment> \<open>\<open>if l.count(): return r\<close>, and the rest of the function otherwise\<close>
  "first_if_any R l r rest = bnd (count R l) (\<lambda>n. if n \<noteq> 0 then ret (Some r) else rest)"

definition find_table :: "'e runtime \<Rightarrow> scope \<Rightarrow> app_config \<Rightarrow> ('e, locator option) prog" where
  "find_table R sc cfg =
     (let tbl = Loc (Root sc) (table (selectors cfg));
          pending = Loc (Root sc) sel_rate_button_or_link;
          fallback = Loc (Root sc) sel_table_has_rate_text
      in first_if_any R tbl (First tbl)
        (first_if_any R pending (Loc (First pending) sel_ancestor_table)
        (first_if_any R fallback (First fallback)
        (first_if_any R pending (Loc (First pending) sel_ancestor_table)
        (first_if_any R pending (Loc (First pending) sel_ancestor_table)
        (first_if_any R fallback (First fallback)
        (first_if_any R fallback (First fallback)
        (ret None))))))))"

definition find_table_fast :: "'e runtime \<Rightarrow> scope \<Rightarrow> app_config \<Rightarrow> ('e, locator option) prog" where
  "find_table_fast R sc cfg =
     (let tbl = Loc (Root sc) (table (selectors cfg));
          pending = Loc (Root sc) sel_rate_button_or_link;
          fallback = Loc (Root sc) sel_table_has_rate_text
      in first_if_any R tbl (First tbl)
        (first_if_any R pending (Loc (First pending) sel_ancestor_table)
        (first_if_any R fallback (First fallback)
        (ret None))))"

definition td_text :: "'e runtime \<Rightarrow> locator \<Rightarrow> int \<Rightarrow> ('e, pystr) prog" where
  "td_text R tds index =
     (if index < 0 then ret []
      else bnd (count R tds) (\<lambda>n.
        if index \<ge> int n then ret []
        else bnd (inner_text R (OnLocator (Nth tds index))) (\<lambda>s. ret (strip s))))"

section \<open>The click retrier\<close>

definition safe_click_on :: "'e runtime \<Rightarrow> target \<Rightarrow> ('e, unit) prog" where
  \<comment> \<open>the body shared, word for word, by \<open>_safe_click\<close> (on a locator) and
      \<open>_safe_click_handle\<close> (on an element handle)\<close>
  "safe_click_on R t =
     bnd (except_timeout (bnd (act R (Click t (Some 2000) False)) (\<lambda>_. ret True)) (ret False))
       (\<lambda>clicked. if clicked then ret ()
          else except_timeout
            (bnd (best_effort (act R (ScrollIntoView t 2000))) (\<lambda>_.
             bnd (best_effort (act R (Hover t 1000))) (\<lambda>_.
             act R (Click t (Some 2000) True))))
            (try_except (act R (Evaluate t JsElClick))
               (\<lambda>_. act R (Evaluate t JsDispatchClick))))"

definition safe_click :: "'e runtime \<Rightarrow> locator \<Rightarrow> ('e, unit) prog" where
  "safe_click R l = safe_click_on R (OnLocator l)"

definition safe_click_handle :: "'e runtime \<Rightarrow> handle \<Rightarrow> ('e, unit) prog" where
  "safe_click_handle R h = safe_click_on R (OnHandle h)"

definition rand_delay :: "'e runtime \<Rightarrow> app_config \<Rightarrow> ('e, unit) prog" where
  "rand_delay R cfg =
     bnd (randint R (min_ms (delays_ms cfg)) (max_ms (delays_ms cfg)))
       (\<lambda>ms. sleep R (real_of_int ms / 1000))"

section \<open>Waiting for tabs, tables and modals\<close>

definition or_empty :: "pystr option \<Rightarrow> pystr" where
  \<comment> \<open>\<open>(x or "")\<close>\<close>
  "or_empty v = (case v of None \<Rightarrow> [] | Some s \<Rightarrow> s)"

definition tab_looks_active :: "'e runtime \<Rightarrow> pystr \<Rightarrow> bool" where
  "tab_looks_active R class_attr =
     (let c = rt_str_lower R class_attr
      in list_ex (\<lambda>x. contains c x)
           [ascii ''active'', ascii ''btn-primary'', ascii ''btn-success'', ascii ''btn-info'',
            ascii ''selected''])"

definition wait_tab_active_handle :: "'e runtime \<Rightarrow> handle \<Rightarrow> real \<Rightarrow> ('e, unit) prog" where
  "wait_tab_active_handle R h timeout_s =
     bnd (monotonic R) (\<lambda>start.
       loop (\<lambda>_ :: unit.
         bnd (monotonic R) (\<lambda>now.
           if \<not> now - start < timeout_s then ret (Inr ())
           else
             bnd (try_except
                    (bnd (get_attribute R (OnHandle h) (ascii ''aria-selected''))
                       (\<lambda>a. ret (rt_str_lower R (or_empty a) = ascii ''true'')))
                    (\<lambda>_. ret False)) (\<lambda>selected.
             if selected then ret (Inr ())
             else
               bnd (try_except
                      (bnd (get_attribute R (OnHandle h) (ascii ''class''))
                         (\<lambda>a. ret (tab_looks_active R (or_empty a))))
                      (\<lambda>_. ret False)) (\<lambda>active.
               if active then ret (Inr ())
               else bnd (sleep R (1 / 10)) (\<lambda>_. ret (Inl ())))))) ())"

definition skip_text :: "pystr set" where
  \<comment> \<open>the labels of action buttons (submit, cancel, close, save) and of the five rating
      options, in the order of the source\<close>
  "skip_text = {[25552, 20132], [21462, 28040], [20851, 38381], [20445, 23384],
     [24456, 28385, 24847], [28385, 24847], [19968, 33324], [19981, 28385, 24847],
     [24456, 19981, 28385, 24847]}"

definition box_truthy_y_beyond :: "box option \<Rightarrow> real \<Rightarrow> bool" where
  \<comment> \<open>\<open>box and float(box.get("y", 1e9)) > top_y + 220\<close>; coordinates are taken as exact
      real numbers\<close>
  "box_truthy_y_beyond bx top_y = (case bx of None \<Rightarrow> False | Some b \<Rightarrow> box_y b > top_y + 220)"

definition box_x_or_zero :: "box option \<Rightarrow> real" where
  \<comment> \<open>\<open>float(box.get("x", 0.0)) if box else 0.0\<close>\<close>
  "box_x_or_zero bx = (case bx of None \<Rightarrow> 0 | Some b \<Rightarrow> box_x b)"

fun collect_loop :: "'e runtime \<Rightarrow> real \<Rightarrow> handle list \<Rightarrow> (real \<times> pystr \<times> handle) list
    \<Rightarrow> pystr set \<Rightarrow> ('e, (real \<times> pystr \<times> handle) list) prog" where
  "collect_loop R top_y [] selected seen = ret selected"
| "collect_loop R top_y (h # hs) selected seen =
     bnd (try_except
            (bnd (inner_text R (OnHandle h)) (\<lambda>s. ret (Some (replace_newline (strip s)))))
            (\<lambda>_. ret None)) (\<lambda>t.
     case t of
       None \<Rightarrow> collect_loop R top_y hs selected seen
     | Some txt \<Rightarrow>
         if txt = [] \<or> txt \<in> skip_text \<or> txt \<in> seen then collect_loop R top_y hs selected seen
         else
           bnd (try_except (bounding_box R (OnHandle h)) (\<lambda>_. ret None)) (\<lambda>bx.
           if box_truthy_y_beyond bx top_y then collect_loop R top_y hs selected seen
           else collect_loop R top_y hs (selected @ [(box_x_or_zero bx, txt, h)])
                  (insert txt seen)))"

definition sel_explicit_teacher :: pyval where
  "sel_explicit_teacher = PStr (ascii ''.title .jsxx[data-gh], span.jsxx[data-gh]'')"

definition sel_button_a_span :: pyval where
  "sel_button_a_span = PStr (ascii ''button, a, span'')"

definition collect_teacher_tabs :: "'e runtime \<Rightarrow> locator \<Rightarrow> ('e, (pystr \<times> handle) list) prog" where
  "collect_teacher_tabs R modal_locator =
     bnd (try_except
            (bnd (bounding_box R (OnLocator modal_locator))
               (\<lambda>b. ret (case b of None \<Rightarrow> 0 | Some bx \<Rightarrow> box_y bx)))
            (\<lambda>_. ret 0)) (\<lambda>top_y.
     let explicit = Loc modal_locator sel_explicit_teacher in
     bnd (count R explicit) (\<lambda>n.
     let candidates = (if n \<noteq> 0 then explicit
                       else FilterNameRe (Loc modal_locator sel_button_a_span)) in
     bnd (element_handles R candidates) (\<lambda>handles.
     bnd (collect_loop R top_y handles [] {}) (\<lambda>selected.
     ret (map (\<lambda>(x, txt, h). (txt, h)) (sort_key fst selected))))))"

definition sel_title_teacher :: pyval where
  "sel_title_teacher = PStr (ascii ''.title .jsxx[data-gh]'')"

definition wait_for_explicit_teacher_tabs :: "'e runtime \<Rightarrow> scope \<Rightarrow> real \<Rightarrow> ('e, locator) prog" where
  "wait_for_explicit_teacher_tabs R sc timeout_s =
     bnd (monotonic R) (\<lambda>start.
     bnd (loop (\<lambda>last_count :: int.
            bnd (monotonic R) (\<lambda>now.
              if \<not> now - start < timeout_s then ret (Inr None)
              else
                let tabs = Loc (Root sc) sel_title_teacher in
                bnd (try_except (count R tabs) (\<lambda>_. ret 0)) (\<lambda>c.
                if c \<noteq> 0 then ret (Inr (Some tabs))
                else bnd (sleep R (1 / 10)) (\<lambda>_. ret (Inl (int c)))))) (- 1)) (\<lambda>found.
     case found of
       Some tabs \<Rightarrow> ret tabs
     | None \<Rightarrow> ret (Loc (Root sc) sel_title_teacher)))"

definition wait_for_table :: "'e runtime \<Rightarrow> app_config \<Rightarrow> nat \<Rightarrow> ('e, scope \<times> locator) prog" where
  "wait_for_table R cfg timeout_ms =
     bnd (monotonic R) (\<lambda>t0.
     let deadline = t0 + real timeout_ms / 1000 in
     bnd (loop (\<lambda>_ :: unit.
            bnd (monotonic R) (\<lambda>now.
              if \<not> now < deadline then ret (Inr None)
              else
                bnd (resolve_scope_fast R cfg) (\<lambda>sc.
                bnd (find_table_fast R sc cfg) (\<lambda>tb.
                bnd (case tb of
                       None \<Rightarrow> ret None
                     | Some t \<Rightarrow>
                         bnd (count R t) (\<lambda>n.
                           if n \<noteq> 0
                           then try_except
                                  (bnd (act R (ExpectVisible t (Some 1000))) (\<lambda>_. ret (Some (sc, t))))
                                  (\<lambda>_. ret None)
                           else ret None)) (\<lambda>found.
                case found of
                  Some r \<Rightarrow> ret (Inr (Some r))
                | None \<Rightarrow> bnd (sleep R (1 / 10)) (\<lambda>_. ret (Inl ()))))))) ()) (\<lambda>res.
     case res of
       Some r \<Rightarrow> ret r
     | None \<Rightarrow>
         bnd (resolve_scope_fast R cfg) (\<lambda>sc.
         bnd (find_table_fast R sc cfg) (\<lambda>tb.
         let t = (case tb of
                    None \<Rightarrow> First (Loc (Root sc) (table (selectors cfg)))
                  | Some t' \<Rightarrow> t') in
         bnd (act R (ExpectVisible t (Some 1000))) (\<lambda>_. ret (sc, t))))))"

fun modal_candidates :: "'e runtime \<Rightarrow> scope \<Rightarrow> pyval list \<Rightarrow> ('e, (scope \<times> locator) option) prog" where
  "modal_candidates R sc [] = ret None"
| "modal_candidates R sc (sel # rest) =
     (let loc = Loc (Root sc) sel in
      bnd (try_except
             (bnd (count R loc) (\<lambda>n. if n = 0 then ret False else is_visible R (First loc)))
             (\<lambda>_. ret False)) (\<lambda>hit.
      if hit then ret (Some (sc, First loc)) else modal_candidates R sc rest))"

fun modal_scopes :: "'e runtime \<Rightarrow> pyval list \<Rightarrow> (scope_name \<times> scope) list
    \<Rightarrow> ('e, (scope \<times> locator) option) prog" where
  "modal_scopes R cands [] = ret None"
| "modal_scopes R cands ((name, sc) # rest) =
     bnd (modal_candidates R sc cands) (\<lambda>r.
       case r of Some x \<Rightarrow> ret (Some x) | None \<Rightarrow> modal_scopes R cands rest)"

definition wait_for_modal :: "'e runtime \<Rightarrow> app_config \<Rightarrow> nat \<Rightarrow> ('e, scope \<times> locator) prog" where
  "wait_for_modal R cfg timeout_ms =
     (let candidates = [modal (selectors cfg), PStr (ascii ''.modal.pjModal''),
                        PStr (ascii ''.pjModal''), PStr (ascii ''.modal.in''),
                        PStr (ascii ''.modal'')] in
      bnd (monotonic R) (\<lambda>t0.
      let deadline = t0 + real timeout_ms / 1000 in
      bnd (loop (\<lambda>_ :: unit.
             bnd (monotonic R) (\<lambda>now.
               if \<not> now < deadline then ret (Inr None)
               else
                 bnd (scopes R) (\<lambda>scs.
                 bnd (modal_scopes R candidates scs) (\<lambda>r.
                 case r of
                   Some x \<Rightarrow> ret (Inr (Some x))
                 | None \<Rightarrow> bnd (sleep R (1 / 10)) (\<lambda>_. ret (Inl ())))))) ()) (\<lambda>res.
      case res of
        Some x \<Rightarrow> ret x
      | None \<Rightarrow> raise RuntimeError)))"

section \<open>The success dialog and the modal-closed wait\<close>

definition emit :: "event \<Rightarrow> ('e, unit) prog" where
  \<comment> \<open>\<open>print\<close>: recorded in the trace, the browser is not involved\<close>
  "emit ev = (\<lambda>w. Some (Inr (), w\<lparr>trace := trace w @ [ev]\<rparr>))"











section \<open>Filling the active block\<close>

definition sel_radio :: pyval where
  "sel_radio = PStr (ascii ''input[type=radio]'')"

definition sel_label :: pyval where
  "sel_label = PStr (ascii ''label'')"

definition sel_preferred_label :: "app_config \<Rightarrow> pyval" where
  \<comment> \<open>\<open>f'label:has-text("{cfg.rating_text}")'\<close>\<close>
  "sel_preferred_label cfg = PStr (ascii ''label:has-text('' @ dq @ rating_text cfg @ dq @ ascii '')'')"

definition click_question :: "'e runtime \<Rightarrow> app_config \<Rightarrow> locator \<Rightarrow> ('e, bool) prog" where
  \<comment> \<open>the body of the loop of \<open>_click_questions\<close> for the question \<open>q\<close>: \<open>True\<close> when it was
      filled, \<open>False\<close> when it was skipped\<close>
  "click_question R cfg q =
     (let radios = Loc q sel_radio in
      bnd (count R radios) (\<lambda>n.
      if n = 0 then ret False
      else
        let preferred = Loc q (sel_preferred_label cfg) in
        bnd (count R preferred) (\<lambda>p.
        bnd (if p \<noteq> 0 then safe_click R (First preferred)
             else
               let labels = Loc q sel_label in
               bnd (count R labels) (\<lambda>l.
               if l \<noteq> 0
               then bnd (count R labels) (\<lambda>l2. safe_click R (Nth labels (int l2 - 1)))
               else bnd (count R radios) (\<lambda>n2. act R (CheckBox (Nth radios (int n2 - 1)) True)))) (\<lambda>_.
        bnd (rand_delay R cfg) (\<lambda>_. ret True)))))"

fun click_questions_loop :: "'e runtime \<Rightarrow> app_config \<Rightarrow> locator \<Rightarrow> nat list \<Rightarrow> nat \<times> nat
    \<Rightarrow> ('e, nat \<times> nat) prog" where
  \<comment> \<open>\<open>for i in range(q_total)\<close> with the counters \<open>(filled, skipped)\<close>\<close>
  "click_questions_loop R cfg q_locator [] (filled, skipped) = ret (filled, skipped)"
| "click_questions_loop R cfg q_locator (i # rest) (filled, skipped) =
     bnd (click_question R cfg (Nth q_locator (int i))) (\<lambda>was_filled.
       if was_filled then click_questions_loop R cfg q_locator rest (filled + 1, skipped)
       else click_questions_loop R cfg q_locator rest (filled, skipped + 1))"

definition click_questions :: "'e runtime \<Rightarrow> app_config \<Rightarrow> locator \<Rightarrow> ('e, nat) prog" where
  "click_questions R cfg q_locator =
     bnd (count R q_locator) (\<lambda>q_total.
     bnd (click_questions_loop R cfg q_locator [0..<q_total] (0, 0)) (\<lambda>(filled, skipped).
     ret filled))"

definition is_digit :: "'e runtime \<Rightarrow> nat \<Rightarrow> bool" where
  \<comment> \<open>what the pattern \<open>\d\<close> matches: a decimal digit of the Unicode tables\<close>
  "is_digit R c = (rt_digit R c \<noteq> None)"

definition digits_value :: "'e runtime \<Rightarrow> pystr \<Rightarrow> int" where
  \<comment> \<open>\<open>int\<close> of a string of decimal digits\<close>
  "digits_value R ds = foldl (\<lambda>acc c. acc * 10 + int (the (rt_digit R c))) 0 ds"

definition match_progress :: "'e runtime \<Rightarrow> pystr \<Rightarrow> (int \<times> int) option" where
  \<comment> \<open>the pattern \<open>(\d+)\s*/\s*(\d+)\<close> matched at the head of \<open>s\<close>; 47 is the slash\<close>
  "match_progress R s =
     (let d1 = takeWhile (is_digit R) s; r1 = dropWhile (is_digit R) s in
      if d1 = [] then None
      else case dropWhile py_isspace r1 of
          [] \<Rightarrow> None
        | c # r2 \<Rightarrow>
            if c \<noteq> 47 then None
            else let d2 = takeWhile (is_digit R) (dropWhile py_isspace r2) in
              if d2 = [] then None else Some (digits_value R d1, digits_value R d2))"

fun parse_progress :: "'e runtime \<Rightarrow> pystr \<Rightarrow> (int \<times> int) option" where
  \<comment> \<open>\<open>re.search\<close>: the leftmost match\<close>
  "parse_progress R [] = None"
| "parse_progress R (c # cs) =
     (case match_progress R (c # cs) of Some r \<Rightarrow> Some r | None \<Rightarrow> parse_progress R cs)"

definition sel_any_question_with_radio :: pyval where
  "sel_any_question_with_radio = PStr (ascii ''.tm:has(input[type=radio])'')"

definition prefill_active_block :: "'e runtime \<Rightarrow> locator \<Rightarrow> app_config \<Rightarrow> ('e, unit) prog" where
  "prefill_active_block R modal_locator cfg =
     (let active = Loc modal_locator (active_block (selectors cfg)) in
      bnd (act R (ExpectVisible active None)) (\<lambda>_.
      bnd (click_questions R cfg (Loc active (question_block (selectors cfg)))) (\<lambda>_.
      let comment = Loc active (comment_textarea (selectors cfg)) in
      bnd (act R (ExpectVisible comment None)) (\<lambda>_.
      bnd (choice R (comment_templates cfg)) (\<lambda>text.
      bnd (act R (Fill comment text)) (\<lambda>_.
      let done = Loc active (done_text (selectors cfg)) in
      bnd (count R done) (\<lambda>n.
      if n = 0 then ret ()
      else
        bnd (inner_text R (OnLocator (First done))) (\<lambda>txt.
        case parse_progress R (strip txt) of
          None \<Rightarrow> ret ()
        | Some (a, b) \<Rightarrow>
            if a < b
            then
              let all_questions = Loc active sel_any_question_with_radio in
              bnd (count R all_questions) (\<lambda>k.
              if k = 0 then ret ()
              else
                bnd (count R all_questions) (\<lambda>_.
                bnd (click_questions R cfg all_questions) (\<lambda>_.
                bnd (inner_text R (OnLocator (First done))) (\<lambda>_. ret ()))))
            else ret ()))))))))"

section \<open>The evaluation flow\<close>

definition sel_generic_confirm :: pyval where
  \<comment> \<open>\<open>button:visible:has-text("..."), a:visible:has-text("..."), span:visible:text-is("...")\<close>
      with the "confirm" label\<close>
  "sel_generic_confirm =
     PStr (ascii ''button:visible:has-text('' @ dq @ zh_confirm_ok @ dq
       @ ascii ''), a:visible:has-text('' @ dq @ zh_confirm_ok @ dq
       @ ascii ''), span:visible:text-is('' @ dq @ zh_confirm_ok @ dq @ ascii '')'')"

fun confirm_in_scopes :: "'e runtime \<Rightarrow> app_config \<Rightarrow> scope list \<Rightarrow> ('e, bool) prog" where
  \<comment> \<open>\<open>for scope_chk in [modal_scope, page]\<close>; the result is \<open>_confirmed\<close>\<close>
  "confirm_in_scopes R cfg [] = ret False"
| "confirm_in_scopes R cfg (scope_chk # rest) =
     bnd (try_except
            (let candidates = OrLoc (Loc (Root scope_chk) (success_confirm_button (selectors cfg)))
                                (Loc (Root scope_chk) sel_generic_confirm) in
             bnd (count R candidates) (\<lambda>n.
             if n > 0
             then bnd (is_visible R (First candidates)) (\<lambda>v.
                    if v then bnd (safe_click R (First candidates)) (\<lambda>_. ret True)
                    else ret False)
             else ret False))
            (\<lambda>_. ret False)) (\<lambda>confirmed.
     if confirmed then ret True else confirm_in_scopes R cfg rest)"

definition confirm_tick :: "'e runtime \<Rightarrow> app_config \<Rightarrow> scope \<Rightarrow> locator \<Rightarrow> real \<Rightarrow> unit
    \<Rightarrow> ('e, unit + unit) prog" where
  \<comment> \<open>one round of the loop "Robust Success Popup Handling"\<close>
  "confirm_tick R cfg modal_scope mdl deadline u =
     bnd (monotonic R) (\<lambda>now.
     if \<not> now < deadline then ret (Inr ())
     else
       bnd (best_effort (act R (KeyboardPress (ascii ''Enter'')))) (\<lambda>_.
       bnd (confirm_in_scopes R cfg [modal_scope, SPage]) (\<lambda>confirmed.
       if confirmed then ret (Inr ())
       else
         bnd (is_visible R mdl) (\<lambda>v.
         if \<not> v then ret (Inr ())
         else bnd (sleep R (1 / 2)) (\<lambda>_. ret (Inl ()))))))"

definition submit_and_confirm :: "'e runtime \<Rightarrow> app_config \<Rightarrow> scope \<Rightarrow> locator \<Rightarrow> ('e, unit) prog" where
  \<comment> \<open>from \<open>submit_btn = modal.locator(...)\<close> to \<open>_rand_delay(cfg)\<close>: the source has this
      block twice, once after the explicit tabs and once after the heuristic ones\<close>
  "submit_and_confirm R cfg modal_scope mdl =
     (let submit_btn = Loc mdl (submit_button (selectors cfg)) in
      bnd (act R (ExpectVisible submit_btn None)) (\<lambda>_.
      bnd (safe_click R submit_btn) (\<lambda>_.
      bnd (monotonic R) (\<lambda>t0.
      bnd (loop (confirm_tick R cfg modal_scope mdl (t0 + 5)) ()) (\<lambda>_.
      bnd (act R (ExpectHidden mdl (Some 10000))) (\<lambda>_.
      rand_delay R cfg))))))"

definition sel_tab_by_gh :: "pystr \<Rightarrow> pyval" where
  \<comment> \<open>\<open>f'.title .jsxx[data-gh="{gh}"]'\<close>\<close>
  "sel_tab_by_gh gh = PStr (ascii ''.title .jsxx[data-gh='' @ dq @ gh @ dq @ ascii '']'')"

definition sel_active_tab_by_gh :: "pystr \<Rightarrow> pyval" where
  \<comment> \<open>\<open>f'.title .jsxx.active[data-gh="{gh}"]'\<close>\<close>
  "sel_active_tab_by_gh gh = PStr (ascii ''.title .jsxx.active[data-gh='' @ dq @ gh @ dq @ ascii '']'')"

definition sel_active_block_by_gh :: "pystr \<Rightarrow> pyval" where
  \<comment> \<open>\<open>f'.pjst .jslb.active[data-gh="{gh}"]'\<close>\<close>
  "sel_active_block_by_gh gh = PStr (ascii ''.pjst .jslb.active[data-gh='' @ dq @ gh @ dq @ ascii '']'')"

definition explicit_tab :: "'e runtime \<Rightarrow> app_config \<Rightarrow> scope \<Rightarrow> locator \<Rightarrow> pystr \<Rightarrow> ('e, unit) prog" where
  \<comment> \<open>the body of \<open>for gh, name in tab_info\<close> for a tab whose \<open>gh\<close> is not empty\<close>
  "explicit_tab R cfg modal_scope mdl gh =
     (let tab = First (Loc (Root modal_scope) (sel_tab_by_gh gh)) in
      bnd (safe_click R tab) (\<lambda>_.
      bnd (act R (ExpectVisible (Loc (Root modal_scope) (sel_active_tab_by_gh gh)) (Some 5000))) (\<lambda>_.
      bnd (best_effort
             (let active_block = Loc mdl (sel_active_block_by_gh gh) in
              bnd (count R active_block) (\<lambda>n.
              if n \<noteq> 0 then act R (ExpectVisible (First active_block) (Some 5000))
              else ret ()))) (\<lambda>_.
      bnd (act R (WaitForTimeout 50)) (\<lambda>_.
      prefill_active_block R mdl cfg)))))"

fun explicit_tabs_loop :: "'e runtime \<Rightarrow> app_config \<Rightarrow> scope \<Rightarrow> locator
    \<Rightarrow> (pystr option \<times> pystr) list \<Rightarrow> ('e, unit) prog" where
  "explicit_tabs_loop R cfg modal_scope mdl [] = ret ()"
| "explicit_tabs_loop R cfg modal_scope mdl ((gh, name) # rest) =
     (if or_empty gh = [] then explicit_tabs_loop R cfg modal_scope mdl rest
      else bnd (explicit_tab R cfg modal_scope mdl (or_empty gh))
             (\<lambda>_. explicit_tabs_loop R cfg modal_scope mdl rest))"

fun heuristic_tabs_loop :: "'e runtime \<Rightarrow> app_config \<Rightarrow> locator \<Rightarrow> (pystr \<times> handle) list
    \<Rightarrow> ('e, unit) prog" where
  "heuristic_tabs_loop R cfg mdl [] = ret ()"
| "heuristic_tabs_loop R cfg mdl ((name, h) # rest) =
     bnd (safe_click_handle R h) (\<lambda>_.
     bnd (wait_tab_active_handle R h 2) (\<lambda>_.
     bnd (act R (WaitForTimeout 50)) (\<lambda>_.
     bnd (rand_delay R cfg) (\<lambda>_.
     bnd (prefill_active_block R mdl cfg) (\<lambda>_.
     heuristic_tabs_loop R cfg mdl rest)))))"

definition sel_ancestor_tr :: pyval where
  "sel_ancestor_tr = PStr (ascii ''xpath=ancestor::tr[1]'')"

definition assist_item :: "'e runtime \<Rightarrow> app_config \<Rightarrow> locator \<Rightarrow> unit \<Rightarrow> ('e, unit + unit) prog" where
  \<comment> \<open>one round of \<open>while True\<close> in \<open>assist_page\<close>: \<open>Inr\<close> is the \<open>return\<close> when no pending
      button is left, \<open>Inl\<close> goes round again\<close>
  "assist_item R cfg tbl u =
     (let btns = Loc tbl (pending_button (selectors cfg)) in
      bnd (count R btns) (\<lambda>n.
      if n = 0 then ret (Inr ())
      else
        let btn = First btns;
            tds = Loc (Loc btn sel_ancestor_tr) (PStr (ascii ''td'')) in
        bnd (td_text R tds 0) (\<lambda>course_code.
        bnd (td_text R tds 1) (\<lambda>course_name.
        bnd (td_text R tds 7) (\<lambda>teacher_name.
        bnd (safe_click R btn) (\<lambda>_.
        bnd (wait_for_modal R cfg 30000) (\<lambda>(modal_scope, mdl).
        bnd (wait_for_explicit_teacher_tabs R modal_scope 5) (\<lambda>explicit_tabs.
        bnd (count R explicit_tabs) (\<lambda>k.
        if k \<noteq> 0
        then
          bnd (query (\<lambda>e. rt_tab_info R e explicit_tabs)) (\<lambda>tab_info.
          bnd (explicit_tabs_loop R cfg modal_scope mdl tab_info) (\<lambda>_.
          bnd (submit_and_confirm R cfg modal_scope mdl) (\<lambda>_. ret (Inl ()))))
        else
          bnd (collect_teacher_tabs R (Root modal_scope)) (\<lambda>teacher_tabs.
          bnd (if length teacher_tabs > 1 then heuristic_tabs_loop R cfg mdl teacher_tabs
               else prefill_active_block R mdl cfg) (\<lambda>_.
          bnd (submit_and_confirm R cfg modal_scope mdl) (\<lambda>_. ret (Inl ())))))))))))))"

definition assist_page :: "'e runtime \<Rightarrow> app_config \<Rightarrow> ('e, unit) prog" where
  "assist_page R cfg =
     bnd (wait_for_table R cfg 30000) (\<lambda>(sc, tbl).
     bnd (count R (Loc tbl (PStr (ascii ''tbody tr'')))) (\<lambda>_.
     loop (assist_item R cfg tbl) ()))"

definition sel_next_by_id :: pyval where
  "sel_next_by_id = PStr (ascii ''#kcpjDataTable_next'')"

definition sel_next_by_text :: pyval where
  \<comment> \<open>\<open>a:has-text("..."), a:has-text("..."), button:has-text("..."), button:has-text("...")\<close>
      with the two "next page" labels\<close>
  "sel_next_by_text =
     PStr (ascii ''a:has-text('' @ dq @ zh_next_page_a @ dq
       @ ascii ''), a:has-text('' @ dq @ zh_next_page_b @ dq
       @ ascii ''), button:has-text('' @ dq @ zh_next_page_a @ dq
       @ ascii ''), button:has-text('' @ dq @ zh_next_page_b @ dq @ ascii '')'')"

definition next_page :: "'e runtime \<Rightarrow> scope \<Rightarrow> ('e, unit + unit) prog" where
  \<comment> \<open>the part of the loop of \<open>assist_all_pages\<close> after \<open>assist_page\<close> has returned:
      \<open>Inr\<close> is \<open>return\<close> (the last page), \<open>Inl\<close> goes round again\<close>
  "next_page R sc =
     (let by_id = Loc (Root sc) sel_next_by_id in
      bnd (count R by_id) (\<lambda>n.
      let next_btn = (if n = 0 then Loc (Root sc) sel_next_by_text else by_id) in
      bnd (count R next_btn) (\<lambda>m.
      if m = 0 then ret (Inr ())
      else
        let el = First next_btn in
        bnd (get_attribute R (OnLocator el) (ascii ''class'')) (\<lambda>c.
        let classes = or_empty c in
        bnd (get_attribute R (OnLocator el) (ascii ''aria-disabled'')) (\<lambda>a.
        let aria_disabled = or_empty a in
        bnd (try_except
               (bnd (get_attribute R (OnLocator (Loc el (PStr (ascii ''xpath=..'')))) (ascii ''class''))
                  (\<lambda>pc. ret (or_empty pc)))
               (\<lambda>_. ret [])) (\<lambda>parent_classes.
        if contains classes (ascii ''disabled'') \<or> contains parent_classes (ascii ''disabled'')
           \<or> rt_str_lower R aria_disabled = ascii ''true''
        then ret (Inr ())
        else
          bnd (act R (Click (OnLocator el) None False)) (\<lambda>_.
          bnd (act R (WaitForTimeout 500)) (\<lambda>_. ret (Inl ())))))))))"

definition assist_all_pages_round :: "'e runtime \<Rightarrow> app_config \<Rightarrow> unit \<Rightarrow> ('e, unit + unit) prog" where
  "assist_all_pages_round R cfg u =
     bnd (resolve_scope_fast R cfg) (\<lambda>sc.
     bnd (assist_page R cfg) (\<lambda>_.
     next_page R sc))"

definition assist_all_pages :: "'e runtime \<Rightarrow> app_config \<Rightarrow> ('e, unit) prog" where
  "assist_all_pages R cfg =
     bnd (act R (Goto (list_url cfg) (ascii ''domcontentloaded''))) (\<lambda>_.
       loop (assist_all_pages_round R cfg) ())"

section \<open>Loading the configuration (config.py)\<close>









definition default_pending_button :: pyval where
  "default_pending_button =
     PStr (ascii ''td:last-child button:text-is('' @ dq @ zh_rate @ dq @ ascii '')'')"

definition default_question_block :: pyval where
  "default_question_block = PStr (ascii ''.tm[data-fs='' @ dq @ ascii ''5'' @ dq @ ascii '']'')"

definition default_success_confirm_button :: pyval where
  "default_success_confirm_button =
     PStr (ascii ''.layui-layer-btn0, .bootbox-accept, button:has-text('' @ sq @ zh_confirm_ok @ sq
       @ ascii ''), a:has-text('' @ sq @ zh_confirm_ok @ sq @ ascii '')'')"




section \<open>Notions used to state the properties\<close>

definition scope_matches :: "'e runtime \<Rightarrow> 'e \<Rightarrow> pyval \<Rightarrow> scope \<Rightarrow> bool" where
  \<comment> \<open>the match count of the selector in the scope is there and is not zero\<close>
  "scope_matches R e sel sc =
     (case rt_count R e (Loc (Root sc) sel) of Inr n \<Rightarrow> n \<noteq> 0 | Inl _ \<Rightarrow> False)"

definition event_target :: "event \<Rightarrow> target option" where
  \<comment> \<open>the element a call acts on, when it acts on one\<close>
  "event_target ev = (case ev of
       Click t _ _ \<Rightarrow> Some t
     | ScrollIntoView t _ \<Rightarrow> Some t
     | Hover t _ \<Rightarrow> Some t
     | Evaluate t _ \<Rightarrow> Some t
     | CheckBox l _ \<Rightarrow> Some (OnLocator l)
     | Fill l _ \<Rightarrow> Some (OnLocator l)
     | ExpectVisible l _ \<Rightarrow> Some (OnLocator l)
     | ExpectHidden l _ \<Rightarrow> Some (OnLocator l)
     | _ \<Rightarrow> None)"










definition emits :: "(event \<Rightarrow> bool) \<Rightarrow> ('e, 'a) prog \<Rightarrow> bool" where
  "emits P m =
     (\<forall>w r w'. m w = Some (r, w') \<longrightarrow> (\<exists>evs. trace w' = trace w @ evs \<and> list_all P evs))"

definition flow_event :: "event \<Rightarrow> bool" where
  \<comment> \<open>a wait for an element to be hidden has the timeout 10000 ms, and the call is not the
      progress message of \<open>_wait_modal_closed\<close>\<close>
  "flow_event ev = (case ev of
       ExpectHidden l t \<Rightarrow> t = Some 10000
     | PrintWaiting a \<Rightarrow> False
     | _ \<Rightarrow> True)"

text \<open>The next-page control and the class of its parent, as \<open>assist_all_pages\<close> reads them.\<close>

definition next_control :: "'e runtime \<Rightarrow> 'e \<Rightarrow> scope \<Rightarrow> locator" where
  \<comment> \<open>by id when that matches, by the "next page" words otherwise\<close>
  "next_control R e sc =
     (if rt_count R e (Loc (Root sc) sel_next_by_id) = Inr 0 then Loc (Root sc) sel_next_by_text
      else Loc (Root sc) sel_next_by_id)"

definition parent_classes :: "'e runtime \<Rightarrow> 'e \<Rightarrow> locator \<Rightarrow> pystr" where
  \<comment> \<open>the class of the parent, empty when it has none or reading it raises\<close>
  "parent_classes R e el =
     (case rt_get_attribute R e (OnLocator (Loc el (PStr (ascii ''xpath=..'')))) (ascii ''class'') of
        Inr pc \<Rightarrow> or_empty pc | Inl _ \<Rightarrow> [])"

definition block_wait :: "'e runtime \<Rightarrow> locator \<Rightarrow> pystr \<Rightarrow> 'e world \<Rightarrow> 'e world" where
  \<comment> \<open>the world after the best-effort wait for the content block of the tab \<open>gh\<close>: the wait
      is made only when the block has a nonzero match count, and its outcome is dropped\<close>
  "block_wait R mdl gh w =
     (case rt_count R (env w) (Loc mdl (sel_active_block_by_gh gh)) of
        Inl ex \<Rightarrow> w
      | Inr n \<Rightarrow>
          if n = 0 then w
          else \<lparr>env = snd (rt_perform R
                         (ExpectVisible (First (Loc mdl (sel_active_block_by_gh gh))) (Some 5000))
                         (env w)),
                trace = trace w @
                  [ExpectVisible (First (Loc mdl (sel_active_block_by_gh gh))) (Some 5000)]\<rparr>)"

section \<open>Example environments\<close>

definition ascii_lower :: "pystr \<Rightarrow> pystr" where
  \<comment> \<open>\<open>str.lower\<close> on ASCII text\<close>
  "ascii_lower s = map (\<lambda>c. if 65 \<le> c \<and> c \<le> 90 then c + 32 else c) s"

definition ascii_digit :: "nat \<Rightarrow> nat option" where
  "ascii_digit c = (if 48 \<le> c \<and> c \<le> 57 then Some (c - 48) else None)"

definition idle_runtime :: "'e runtime" where
  \<comment> \<open>an empty page on which every call succeeds and nothing ever changes\<close>
  "idle_runtime = \<lparr>
     rt_frames = (\<lambda>e. []),
     rt_main_frame = (\<lambda>e. Frame 0 []),
     rt_count = (\<lambda>e l. Inr 0),
     rt_is_visible = (\<lambda>e l. Inr False),
     rt_get_attribute = (\<lambda>e t a. Inr None),
     rt_inner_text = (\<lambda>e t. Inr []),
     rt_bounding_box = (\<lambda>e t. Inr None),
     rt_element_handles = (\<lambda>e l. Inr []),
     rt_tab_info = (\<lambda>e l. Inr []),
     rt_monotonic = (\<lambda>e. 0),
     rt_perform = (\<lambda>ev e. (Inr (), e)),
     rt_sleep = (\<lambda>secs e. e),
     rt_random = (\<lambda>e. (0, e)),
     rt_str_lower = ascii_lower,
     rt_digit = ascii_digit\<rparr>"

definition page_with :: "(locator \<times> nat) list \<Rightarrow> 'e runtime" where
  \<comment> \<open>the idle page with the given match counts\<close>
  "page_with counts =
     idle_runtime\<lparr>rt_count := (\<lambda>e l. Inr (case map_of counts l of Some n \<Rightarrow> n | None \<Rightarrow> 0))\<rparr>"

definition empty_run :: "unit world" where
  "empty_run = \<lparr>env = (), trace = []\<rparr>"

definition example_selectors :: selectors where
  \<comment> \<open>the defaults of \<open>load_config\<close>\<close>
  "example_selectors = \<lparr>
     table = PStr (ascii ''#kcpjDataTable''),
     pending_button = default_pending_button,
     modal = PStr (ascii ''.modal:visible''),
     teacher_tabs = PStr (ascii ''.title .jsxx''),
     active_block = PStr (ascii ''.pjst .jslb.active''),
     question_block = default_question_block,
     comment_textarea = PStr (ascii ''textarea.form-control.da''),
     done_text = PStr (ascii ''.tmtj span''),
     submit_button = PStr (ascii ''.modal-footer button.sure''),
     success_confirm_button = default_success_confirm_button\<rparr>"

definition example_config :: app_config where
  "example_config = \<lparr>
     login_url = ascii ''https://portal.example/login'',
     list_url = ascii ''https://portal.example/list'',
     browser = \<lparr>headless = False, slow_mo_ms = 0\<rparr>,
     rating_text = zh_very_satisfied,
     comment_templates = [ascii ''Good course.''],
     delays_ms = \<lparr>min_ms = 100, max_ms = 350\<rparr>,
     manual_submit_max_wait_s = 0,
     selectors = example_selectors\<rparr>"



text \<open>A button that no click gets through to, so that the retrier goes down its whole ladder.\<close>

definition stubborn_button :: "'e runtime" where
  "stubborn_button = idle_runtime\<lparr>rt_perform := (\<lambda>ev e.
     (case ev of
        Click t ms force \<Rightarrow> Inl PlaywrightTimeoutError
      | Evaluate t code \<Rightarrow> Inl PlaywrightError
      | _ \<Rightarrow> Inr (), e))\<rparr>"

definition detached_button :: "'e runtime" where
  \<comment> \<open>every call of Playwright raises an error that is not a timeout\<close>
  "detached_button = idle_runtime\<lparr>rt_perform := (\<lambda>ev e. (Inl PlaywrightError, e))\<rparr>"

definition never_active :: "'e runtime" where
  \<comment> \<open>clicks succeed, but no element ever becomes visible\<close>
  "never_active = idle_runtime\<lparr>rt_perform := (\<lambda>ev e.
     (case ev of ExpectVisible l ms \<Rightarrow> Inl AssertionError | _ \<Rightarrow> Inr (), e))\<rparr>"

text \<open>A question of the form: the first element the configured question selector matches.\<close>

definition question0 :: locator where
  "question0 = Nth (Loc (Root SPage) (question_block example_selectors)) 0"







text \<open>A next-page control whose only mark of being disabled is \<open>aria-disabled="TRUE"\<close>.\<close>

definition shouting_next :: "'e runtime" where
  "shouting_next =
     (page_with [(Loc (Root SPage) sel_next_by_id, 1)])\<lparr>rt_get_attribute := (\<lambda>e t a.
        Inr (if a = ascii ''aria-disabled'' then Some (ascii ''TRUE'') else None))\<rparr>"


text \<open>
  A small portal: a list table with pending rows; clicking the first pending button opens
  the modal, which has one explicit teacher tab, no questions and no progress text;
  clicking submit closes the modal and takes the row off the list.  With \<open>more_pages\<close> the
  list has an enabled next-page control.
\<close>

record portal_state =
  ps_pending :: nat
  ps_open :: bool

definition portal_table :: locator where
  "portal_table = Loc (Root SPage) (table example_selectors)"

definition portal_buttons :: locator where
  "portal_buttons = Loc (First portal_table) (pending_button example_selectors)"

definition portal_modal :: locator where
  "portal_modal = First (Loc (Root SPage) (modal example_selectors))"

definition portal_submit :: locator where
  "portal_submit = Loc portal_modal (submit_button example_selectors)"

definition portal_count :: "bool \<Rightarrow> portal_state \<Rightarrow> locator \<Rightarrow> nat" where
  "portal_count more_pages e l =
     (if l = portal_table \<or> l = First portal_table then 1
      else if l = portal_buttons \<or> l = Loc (First portal_table) (PStr (ascii ''tbody tr''))
        then ps_pending e
      else if l = Loc (Root SPage) (modal example_selectors) \<or> l = Loc (Root SPage) sel_title_teacher
        then (if ps_open e then 1 else 0)
      else if l = Loc (Root SPage) sel_next_by_id then (if more_pages then 1 else 0)
      else 0)"

definition portal_step :: "event \<Rightarrow> portal_state \<Rightarrow> portal_state" where
  "portal_step ev e =
     (if ev = Click (OnLocator (First portal_buttons)) (Some 2000) False then e\<lparr>ps_open := True\<rparr>
      else if ev = Click (OnLocator portal_submit) (Some 2000) False
        then \<lparr>ps_pending = ps_pending e - 1, ps_open = False\<rparr>
      else e)"

definition portal :: "bool \<Rightarrow> portal_state runtime" where
  "portal more_pages = idle_runtime\<lparr>
     rt_count := (\<lambda>e l. Inr (portal_count more_pages e l)),
     rt_is_visible := (\<lambda>e l. Inr (l = portal_modal \<and> ps_open e)),
     rt_tab_info := (\<lambda>e l. Inr [(Some (ascii ''T1''), ascii ''Teacher'')]),
     rt_perform := (\<lambda>ev e. (Inr (), portal_step ev e))\<rparr>"

definition portal_trace :: "event list" where
  \<comment> \<open>the calls of \<open>assist_page\<close> on the portal with one pending row\<close>
  "portal_trace =
     [ExpectVisible (First portal_table) (Some 1000),
      Click (OnLocator (First portal_buttons)) (Some 2000) False,
      Click (OnLocator (First (Loc (Root SPage) (sel_tab_by_gh (ascii ''T1''))))) (Some 2000) False,
      ExpectVisible (Loc (Root SPage) (sel_active_tab_by_gh (ascii ''T1''))) (Some 5000),
      WaitForTimeout 50,
      ExpectVisible (Loc portal_modal (active_block example_selectors)) None,
      ExpectVisible (Loc (Loc portal_modal (active_block example_selectors))
                       (comment_textarea example_selectors)) None,
      Fill (Loc (Loc portal_modal (active_block example_selectors))
              (comment_textarea example_selectors)) (ascii ''Good course.''),
      ExpectVisible portal_submit None,
      Click (OnLocator portal_submit) (Some 2000) False,
      KeyboardPress (ascii ''Enter''),
      ExpectHidden portal_modal (Some 10000),
      Sleep (1 / 10)]"

text \<open>
  A page on which the content block of the tab \<open>T1\<close> is in the document but never becomes
  visible: the wait for it fails, every other call succeeds.
\<close>

definition hidden_block :: "'e runtime" where
  "hidden_block =
     (page_with [(Loc portal_modal (sel_active_block_by_gh (ascii ''T1'')), 1)])\<lparr>rt_perform :=
        (\<lambda>ev e. (if ev = ExpectVisible (First (Loc portal_modal (sel_active_block_by_gh (ascii ''T1''))))
                               (Some 5000)
                   then Inl AssertionError else Inr (), e))\<rparr>"

text \<open>
  A page whose next-page lookups and whose reads of the control's attributes answer as
  given: the count by id, the count by the "next page" words, the control's class and its
  \<open>aria-disabled\<close>.  The parent of the control has no class.
\<close>

definition next_probe :: "exn + nat \<Rightarrow> exn + nat \<Rightarrow> exn + pystr option \<Rightarrow> exn + pystr option
    \<Rightarrow> unit runtime" where
  "next_probe by_id by_text cls aria = idle_runtime\<lparr>
     rt_count := (\<lambda>e l. if l = Loc (Root SPage) sel_next_by_id then by_id else by_text),
     rt_get_attribute := (\<lambda>e t a. case t of
         OnLocator (First l) \<Rightarrow> if a = ascii ''class'' then cls else aria
       | _ \<Rightarrow> Inr None)\<rparr>"

text \<open>The portal with a next-page control none of whose attributes can be read.\<close>

definition portal_locked :: "portal_state runtime" where
  "portal_locked = (portal True)\<lparr>rt_get_attribute := (\<lambda>e t a. Inl PlaywrightError)\<rparr>"

section \<open>Properties\<close>

subsection \<open>Running programs\<close>

lemma bnd_apply:
  "bnd m f w = (case m w of
       None \<Rightarrow> None
     | Some (Inl ex, w') \<Rightarrow> Some (Inl ex, w')
     | Some (Inr x, w') \<Rightarrow> f x w')"
  by (simp add: bnd_def)

lemma try_except_apply:
  "try_except m h w = (case m w of
       None \<Rightarrow> None
     | Some (Inl ex, w') \<Rightarrow> h ex w'
     | Some (Inr x, w') \<Rightarrow> Some (Inr x, w'))"
  by (simp add: try_except_def)

lemma ret_apply: "ret x w = Some (Inr x, w)"
  by (simp add: ret_def)

lemma raise_apply: "raise ex w = Some (Inl ex, w)"
  by (simp add: raise_def)

lemma count_eq: "count R l w = Some (rt_count R (env w) l, w)"
  by (simp add: count_def query_def)



lemma get_attribute_eq: "get_attribute R t a w = Some (rt_get_attribute R (env w) t a, w)"
  by (simp add: get_attribute_def query_def)



lemma act_eq:
  "act R ev w = Some (fst (rt_perform R ev (env w)), \<lparr>env = snd (rt_perform R ev (env w)), trace = trace w @ [ev]\<rparr>)"
  by (simp add: act_def split: prod.splits)

lemma best_effort_act:
  "best_effort (act R ev) w = Some (Inr (), \<lparr>env = snd (rt_perform R ev (env w)), trace = trace w @ [ev]\<rparr>)"
  by (simp add: best_effort_def try_except_def bnd_def act_eq ret_def split: sum.splits)

subsection \<open>Scope resolution\<close>

lemma selector_hits_eq:
  "selector_hits R sc sel w = Some (Inr (scope_matches R (env w) sel sc), w)"
  by (simp add: selector_hits_def scope_matches_def try_except_def bnd_def count_def query_def ret_def
      split: sum.splits)

lemma first_scope_find:
  "first_scope R sel scs w = Some (Inr (find (scope_matches R (env w) sel) (map snd scs)), w)"
proof (induction scs)
  case Nil
  show ?case by (simp add: ret_def)
next
  case (Cons p scs)
  obtain name sc where p: "p = (name, sc)" by (cases p)
  show ?case using Cons
    by (simp add: p bnd_def selector_hits_eq ret_def)
qed

lemma frames_of_enumerate:
  "map snd (map (\<lambda>(i, f). (FrameName i (frame_url f), SFrame f))
       (filter (\<lambda>(i, f). P f) (enumerate i xs))) = map SFrame (filter P xs)"
  by (induction xs arbitrary: i) auto

lemma iter_scopes_order:
  "map snd (iter_scopes R e) =
     SPage # map SFrame (filter (\<lambda>f. frame_id f \<noteq> frame_id (rt_main_frame R e)) (rt_frames R e))"
  using frames_of_enumerate [of "\<lambda>f. frame_id f \<noteq> frame_id (rt_main_frame R e)" 0 "rt_frames R e"]
  by (simp add: iter_scopes_def)

text \<open>
  Claim C1.  In every world \<open>_resolve_scope\<close> returns a scope, raises nothing and leaves the
  world as it was.  The scopes it goes through are the page first and then the frames
  other than the main frame, in the order of \<open>page.frames\<close>.  The scope returned is the
  first of them in which the configured table selector has a nonzero match count; when there
  is none, the first in which the fallback selector (a table with a "rate" button) has one;
  when there is none either, the page.  A scope whose count raises counts as no match.
\<close>

theorem resolve_scope_first_match:
  "\<exists>sc. resolve_scope R cfg w = Some (Inr sc, w) \<and>
     map snd (iter_scopes R (env w)) =
       SPage # map SFrame (filter (\<lambda>f. frame_id f \<noteq> frame_id (rt_main_frame R (env w)))
                             (rt_frames R (env w))) \<and>
     sc = (case find (scope_matches R (env w) (table (selectors cfg)))
                  (map snd (iter_scopes R (env w))) of
             Some s \<Rightarrow> s
           | None \<Rightarrow>
              (case find (scope_matches R (env w) sel_table_has_rate_button)
                      (map snd (iter_scopes R (env w))) of
                 Some s \<Rightarrow> s
               | None \<Rightarrow> SPage))"
  by (simp add: resolve_scope_def scopes_def bnd_def query_def first_scope_find ret_def
      iter_scopes_order split: option.splits)

subsection \<open>Table location\<close>

lemma first_if_any_eq:
  "first_if_any R l r rest w =
     (case rt_count R (env w) l of
        Inl ex \<Rightarrow> Some (Inl ex, w)
      | Inr n \<Rightarrow> if n \<noteq> 0 then Some (Inr (Some r), w) else rest w)"
  by (simp add: first_if_any_def bnd_def count_def query_def ret_def split: sum.splits)

text \<open>
  Claim C2.  \<open>_find_table\<close> tries three candidates in order and the first hit wins:
  when the configured table selector matches, its first match is returned; otherwise, when a
  "rate" button or link exists, the nearest ancestor table of the first of them; otherwise,
  when a table contains the "rate" word, the first such table; and when all three counts
  are zero the result is \<open>None\<close>, returned normally.  The world is unchanged in every case.
\<close>

theorem find_table_order:
  "(\<forall>n. rt_count R (env w) (Loc (Root sc) (table (selectors cfg))) = Inr n \<and> n \<noteq> 0 \<longrightarrow>
      find_table R sc cfg w = Some (Inr (Some (First (Loc (Root sc) (table (selectors cfg))))), w)) \<and>
   (\<forall>m. rt_count R (env w) (Loc (Root sc) (table (selectors cfg))) = Inr 0 \<and>
        rt_count R (env w) (Loc (Root sc) sel_rate_button_or_link) = Inr m \<and> m \<noteq> 0 \<longrightarrow>
      find_table R sc cfg w =
        Some (Inr (Some (Loc (First (Loc (Root sc) sel_rate_button_or_link)) sel_ancestor_table)), w)) \<and>
   (\<forall>k. rt_count R (env w) (Loc (Root sc) (table (selectors cfg))) = Inr 0 \<and>
        rt_count R (env w) (Loc (Root sc) sel_rate_button_or_link) = Inr 0 \<and>
        rt_count R (env w) (Loc (Root sc) sel_table_has_rate_text) = Inr k \<and> k \<noteq> 0 \<longrightarrow>
      find_table R sc cfg w = Some (Inr (Some (First (Loc (Root sc) sel_table_has_rate_text))), w)) \<and>
   (rt_count R (env w) (Loc (Root sc) (table (selectors cfg))) = Inr 0 \<and>
    rt_count R (env w) (Loc (Root sc) sel_rate_button_or_link) = Inr 0 \<and>
    rt_count R (env w) (Loc (Root sc) sel_table_has_rate_text) = Inr 0 \<longrightarrow>
      find_table R sc cfg w = Some (Inr None, w))"
  by (simp add: find_table_def first_if_any_eq ret_def Let_def)

lemma example_table_selector: "table (selectors example_config) = PStr (ascii ''#kcpjDataTable'')"
  by (simp add: example_config_def example_selectors_def)

lemma sels_distinct:
  "sel_rate_button_or_link \<noteq> sel_table_has_rate_text"
  "sel_table_has_rate_text \<noteq> sel_rate_button_or_link"
  "sel_rate_button_or_link \<noteq> PStr (ascii ''#kcpjDataTable'')"
  "PStr (ascii ''#kcpjDataTable'') \<noteq> sel_rate_button_or_link"
  "sel_table_has_rate_text \<noteq> PStr (ascii ''#kcpjDataTable'')"
  "PStr (ascii ''#kcpjDataTable'') \<noteq> sel_table_has_rate_text"
  by (simp_all add: sel_rate_button_or_link_def sel_table_has_rate_text_def ascii_def)

lemma page_with_count:
  "rt_count (page_with counts) e l = Inr (case map_of counts l of Some n \<Rightarrow> n | None \<Rightarrow> 0)"
  by (simp add: page_with_def idle_runtime_def)

theorem find_table_order_witness:
  "find_table (page_with [(Loc (Root SPage) (table (selectors example_config)), 1),
                          (Loc (Root SPage) sel_rate_button_or_link, 2)]) SPage example_config empty_run
     = Some (Inr (Some (First (Loc (Root SPage) (table (selectors example_config))))), empty_run) \<and>
   find_table (page_with [(Loc (Root SPage) sel_rate_button_or_link, 2),
                          (Loc (Root SPage) sel_table_has_rate_text, 1)]) SPage example_config empty_run
     = Some (Inr (Some (Loc (First (Loc (Root SPage) sel_rate_button_or_link)) sel_ancestor_table)),
             empty_run) \<and>
   find_table (page_with [(Loc (Root SPage) sel_table_has_rate_text, 1)]) SPage example_config empty_run
     = Some (Inr (Some (First (Loc (Root SPage) sel_table_has_rate_text))), empty_run) \<and>
   find_table (page_with []) SPage example_config empty_run = Some (Inr None, empty_run)"
  using
    find_table_order [of "page_with [(Loc (Root SPage) (table (selectors example_config)), 1),
                          (Loc (Root SPage) sel_rate_button_or_link, 2)]" empty_run SPage example_config]
    find_table_order [of "page_with [(Loc (Root SPage) sel_rate_button_or_link, 2),
                          (Loc (Root SPage) sel_table_has_rate_text, 1)]" empty_run SPage example_config]
    find_table_order [of "page_with [(Loc (Root SPage) sel_table_has_rate_text, 1)]" empty_run SPage
                          example_config]
    find_table_order [of "page_with []" empty_run SPage example_config]
  by (simp add: page_with_count example_table_selector sels_distinct)

subsection \<open>The click retrier\<close>

lemma safe_click_on_eq:
  "safe_click_on R t w =
    (let c1 = Click t (Some 2000) False; sc = ScrollIntoView t 2000; hv = Hover t 1000;
         c2 = Click t (Some 2000) True; j1 = Evaluate t JsElClick; j2 = Evaluate t JsDispatchClick;
         r1 = fst (rt_perform R c1 (env w)); e1 = snd (rt_perform R c1 (env w));
         e2 = snd (rt_perform R sc e1);
         e3 = snd (rt_perform R hv e2);
         r4 = fst (rt_perform R c2 e3); e4 = snd (rt_perform R c2 e3);
         r5 = fst (rt_perform R j1 e4); e5 = snd (rt_perform R j1 e4);
         r6 = fst (rt_perform R j2 e5); e6 = snd (rt_perform R j2 e5)
     in if r1 \<noteq> Inl PlaywrightTimeoutError then Some (r1, \<lparr>env = e1, trace = trace w @ [c1]\<rparr>)
        else if r4 \<noteq> Inl PlaywrightTimeoutError
          then Some (r4, \<lparr>env = e4, trace = trace w @ [c1, sc, hv, c2]\<rparr>)
        else if r5 = Inr () then Some (Inr (), \<lparr>env = e5, trace = trace w @ [c1, sc, hv, c2, j1]\<rparr>)
        else Some (r6, \<lparr>env = e6, trace = trace w @ [c1, sc, hv, c2, j1, j2]\<rparr>))"
  unfolding safe_click_on_def Let_def
  by (simp add: bnd_def except_timeout_def try_except_def act_eq best_effort_act ret_def raise_def
      split: sum.splits)

text \<open>
  Claim C5.  \<open>_safe_click\<close> goes down its ladder on timeouts only.  With the outcomes of the
  calls named as they would happen in turn: when the plain click does not time out, its
  outcome (success or any other error) is the result and nothing else is called; when it
  times out, the element is scrolled into view and hovered, whatever these two answer, and
  clicked with force, whose outcome is the result unless it is a timeout; after that timeout
  the element's own \<open>click()\<close> is invoked, and when that raises anything, a synthesized
  click event is dispatched, whose outcome, error included, is the result.
\<close>

theorem safe_click_escalation:
  "safe_click R l w =
    (let t = OnLocator l;
         c1 = Click t (Some 2000) False; sc = ScrollIntoView t 2000; hv = Hover t 1000;
         c2 = Click t (Some 2000) True; j1 = Evaluate t JsElClick; j2 = Evaluate t JsDispatchClick;
         r1 = fst (rt_perform R c1 (env w)); e1 = snd (rt_perform R c1 (env w));
         e2 = snd (rt_perform R sc e1);
         e3 = snd (rt_perform R hv e2);
         r4 = fst (rt_perform R c2 e3); e4 = snd (rt_perform R c2 e3);
         r5 = fst (rt_perform R j1 e4); e5 = snd (rt_perform R j1 e4);
         r6 = fst (rt_perform R j2 e5); e6 = snd (rt_perform R j2 e5)
     in if r1 \<noteq> Inl PlaywrightTimeoutError then Some (r1, \<lparr>env = e1, trace = trace w @ [c1]\<rparr>)
        else if r4 \<noteq> Inl PlaywrightTimeoutError
          then Some (r4, \<lparr>env = e4, trace = trace w @ [c1, sc, hv, c2]\<rparr>)
        else if r5 = Inr () then Some (Inr (), \<lparr>env = e5, trace = trace w @ [c1, sc, hv, c2, j1]\<rparr>)
        else Some (r6, \<lparr>env = e6, trace = trace w @ [c1, sc, hv, c2, j1, j2]\<rparr>))"
  unfolding safe_click_def using safe_click_on_eq [of R "OnLocator l" w] by (simp add: Let_def)

lemma idle_perform: "rt_perform idle_runtime ev e = (Inr (), e)"
  by (simp add: idle_runtime_def)

theorem safe_click_escalation_witness:
  "safe_click stubborn_button question0 empty_run =
     Some (Inl PlaywrightError,
       \<lparr>env = (), trace = [Click (OnLocator question0) (Some 2000) False,
                           ScrollIntoView (OnLocator question0) 2000,
                           Hover (OnLocator question0) 1000,
                           Click (OnLocator question0) (Some 2000) True,
                           Evaluate (OnLocator question0) JsElClick,
                           Evaluate (OnLocator question0) JsDispatchClick]\<rparr>) \<and>
   safe_click detached_button question0 empty_run =
     Some (Inl PlaywrightError, \<lparr>env = (), trace = [Click (OnLocator question0) (Some 2000) False]\<rparr>) \<and>
   safe_click idle_runtime question0 empty_run =
     Some (Inr (), \<lparr>env = (), trace = [Click (OnLocator question0) (Some 2000) False]\<rparr>)"
  using safe_click_escalation [of stubborn_button question0 empty_run]
    safe_click_escalation [of detached_button question0 empty_run]
    safe_click_escalation [of idle_runtime question0 empty_run]
  by (simp add: Let_def stubborn_button_def detached_button_def idle_runtime_def empty_run_def)

subsection \<open>Filling a question\<close>







subsection \<open>Collecting the teacher tabs\<close>















subsection \<open>The modal-closed wait\<close>


























subsection \<open>The flow and the manual-submit wait\<close>

lemma emitsI:
  assumes "\<And>w r w'. m w = Some (r, w') \<Longrightarrow> \<exists>evs. trace w' = trace w @ evs \<and> list_all P evs"
  shows "emits P m"
  using assms by (simp add: emits_def)

lemma emitsD:
  assumes "emits P m" and "m w = Some (r, w')"
  shows "\<exists>evs. trace w' = trace w @ evs \<and> list_all P evs"
  using assms by (simp add: emits_def)

lemma emits_ret: "emits P (ret x)"
  by (simp add: emits_def ret_def)

lemma emits_raise: "emits P (raise ex)"
  by (simp add: emits_def raise_def)

lemma emits_query: "emits P (query q)"
  by (simp add: emits_def query_def)

lemma emits_act: "P ev \<Longrightarrow> emits P (act R ev)"
  by (auto simp: emits_def act_def split: prod.splits)

lemma emits_emit: "P ev \<Longrightarrow> emits P (emit ev)"
  by (auto simp: emits_def emit_def)

lemma emits_sleep: "P (Sleep secs) \<Longrightarrow> emits P (sleep R secs)"
  by (auto simp: emits_def sleep_def raise_def)

lemma emits_randint: "emits P (randint R a b)"
  by (auto simp: emits_def randint_def raise_def split: prod.splits)

lemma emits_choice: "emits P (choice R xs)"
  by (auto simp: emits_def choice_def raise_def split: prod.splits)

lemma emits_bnd:
  assumes "emits P m" and "\<And>x. emits P (f x)"
  shows "emits P (bnd m f)"
proof (rule emitsI)
  fix w r w'
  assume run: "bnd m f w = Some (r, w')"
  then obtain r1 w1 where m: "m w = Some (r1, w1)"
    by (cases "m w") (auto simp: bnd_apply)
  from emitsD [OF assms(1) m] obtain evs1 where t1: "trace w1 = trace w @ evs1" and p1: "list_all P evs1"
    by blast
  show "\<exists>evs. trace w' = trace w @ evs \<and> list_all P evs"
  proof (cases r1)
    case (Inl ex)
    with run m have "w' = w1" by (simp add: bnd_apply)
    with t1 p1 show ?thesis by blast
  next
    case (Inr x)
    with run m have "f x w1 = Some (r, w')" by (simp add: bnd_apply)
    from emitsD [OF assms(2) this] obtain evs2 where "trace w' = trace w1 @ evs2" and "list_all P evs2"
      by blast
    with t1 p1 show ?thesis by (intro exI [of _ "evs1 @ evs2"]) simp
  qed
qed

lemma emits_try:
  assumes "emits P m" and "\<And>ex. emits P (h ex)"
  shows "emits P (try_except m h)"
proof (rule emitsI)
  fix w r w'
  assume run: "try_except m h w = Some (r, w')"
  then obtain r1 w1 where m: "m w = Some (r1, w1)"
    by (cases "m w") (auto simp: try_except_apply)
  from emitsD [OF assms(1) m] obtain evs1 where t1: "trace w1 = trace w @ evs1" and p1: "list_all P evs1"
    by blast
  show "\<exists>evs. trace w' = trace w @ evs \<and> list_all P evs"
  proof (cases r1)
    case (Inr x)
    with run m have "w' = w1" by (simp add: try_except_apply)
    with t1 p1 show ?thesis by blast
  next
    case (Inl ex)
    with run m have "h ex w1 = Some (r, w')" by (simp add: try_except_apply)
    from emitsD [OF assms(2) this] obtain evs2 where "trace w' = trace w1 @ evs2" and "list_all P evs2"
      by blast
    with t1 p1 show ?thesis by (intro exI [of _ "evs1 @ evs2"]) simp
  qed
qed

lemma emits_loop:
  fixes body :: "'s \<Rightarrow> ('e, 's + 'r) prog"
  assumes body: "\<And>s. emits P (body s)"
  shows "emits P (loop body s)"
proof (rule emitsI)
  fix w r w'
  assume run: "loop body s w = Some (r, w')"
  have "body = body \<longrightarrow> (\<exists>evs. trace (snd (r, w')) = trace w @ evs \<and> list_all P evs)"
  proof (rule loop.raw_induct [where P = "\<lambda>b s w y. b = body \<longrightarrow> (\<exists>evs. trace (snd y) = trace w @ evs \<and> list_all P evs)", OF _ run])
    fix lp :: "('s \<Rightarrow> ('e, 's + 'r) prog) \<Rightarrow> 's \<Rightarrow> 'e world \<Rightarrow> ((exn + 'r) \<times> 'e world) option"
    fix b s w y
    assume ih: "\<And>b s w y. lp b s w = Some y \<Longrightarrow>
        b = body \<longrightarrow> (\<exists>evs. trace (snd y) = trace w @ evs \<and> list_all P evs)"
      and step: "(case b s w of
                   None \<Rightarrow> None
                 | Some (Inl ex, w') \<Rightarrow> Some (Inl ex, w')
                 | Some (Inr (Inl s'), w') \<Rightarrow> lp b s' w'
                 | Some (Inr (Inr r), w') \<Rightarrow> Some (Inr r, w')) = Some y"
    show "b = body \<longrightarrow> (\<exists>evs. trace (snd y) = trace w @ evs \<and> list_all P evs)"
    proof
      assume b: "b = body"
      from step obtain r1 w1 where m: "body s w = Some (r1, w1)"
        by (cases "b s w") (auto simp: b)
      from emitsD [OF body m] obtain evs1 where t1: "trace w1 = trace w @ evs1" and p1: "list_all P evs1"
        by blast
      show "\<exists>evs. trace (snd y) = trace w @ evs \<and> list_all P evs"
      proof (cases r1)
        case (Inl ex)
        with step m b have "snd y = w1" by auto
        with t1 p1 show ?thesis by auto
      next
        case (Inr c)
        show ?thesis
        proof (cases c)
          case (Inr res)
          with step m b \<open>r1 = Inr c\<close> have "snd y = w1" by auto
          with t1 p1 show ?thesis by auto
        next
          case (Inl s')
          with step m b \<open>r1 = Inr c\<close> have "lp body s' w1 = Some y" by auto
          from ih [OF this] obtain evs2 where "trace (snd y) = trace w1 @ evs2" and "list_all P evs2"
            by blast
          with t1 p1 show ?thesis by (intro exI [of _ "evs1 @ evs2"]) simp
        qed
      qed
    qed
  qed
  then show "\<exists>evs. trace w' = trace w @ evs \<and> list_all P evs" by simp
qed

lemma emits_if: "emits P a \<Longrightarrow> emits P b \<Longrightarrow> emits P (if c then a else b)"
  by simp

lemma emits_best_effort: "emits P m \<Longrightarrow> emits P (best_effort m)"
  unfolding best_effort_def by (intro emits_try emits_bnd emits_ret)

lemma emits_except_timeout: "emits P m \<Longrightarrow> emits P h \<Longrightarrow> emits P (except_timeout m h)"
  unfolding except_timeout_def by (intro emits_try emits_if emits_raise)

lemma emits_case_option:
  "emits P a \<Longrightarrow> (\<And>x. emits P (f x)) \<Longrightarrow> emits P (case v of None \<Rightarrow> a | Some x \<Rightarrow> f x)"
  by (cases v) simp_all

lemma emits_case_prod:
  "(\<And>a b. emits P (f a b)) \<Longrightarrow> emits P (case p of (a, b) \<Rightarrow> f a b)"
  by (cases p) simp

lemma emits_count: "emits P (count R l)"
  by (simp add: count_def emits_query)

lemma emits_is_visible: "emits P (is_visible R l)"
  by (simp add: is_visible_def emits_query)

lemma emits_get_attribute: "emits P (get_attribute R t a)"
  by (simp add: get_attribute_def emits_query)

lemma emits_inner_text: "emits P (inner_text R t)"
  by (simp add: inner_text_def emits_query)

lemma emits_bounding_box: "emits P (bounding_box R t)"
  by (auto simp: bounding_box_def emits_query emits_raise split: target.splits locator.splits)

lemma emits_element_handles: "emits P (element_handles R l)"
  by (simp add: element_handles_def emits_query)

lemma emits_first_of: "emits P (first_of l)"
  by (cases l) (simp_all add: first_of_def emits_ret emits_raise)

lemma emits_monotonic: "emits P (monotonic R)"
  by (simp add: monotonic_def emits_query)

lemma emits_scopes: "emits P (scopes R)"
  by (simp add: scopes_def emits_query)

lemmas emits_basic = emits_bnd emits_try emits_if emits_ret emits_raise emits_query emits_count
  emits_is_visible emits_get_attribute emits_inner_text emits_bounding_box emits_element_handles
  emits_first_of emits_monotonic emits_scopes emits_randint emits_choice emits_best_effort
  emits_except_timeout emits_case_option emits_case_prod emits_loop

lemma flow_rand_delay: "emits flow_event (rand_delay R cfg)"
  unfolding rand_delay_def
  by (intro emits_basic emits_sleep) (simp add: flow_event_def)

lemma flow_safe_click_on: "emits flow_event (safe_click_on R t)"
  unfolding safe_click_on_def
  by (intro emits_basic emits_act) (simp_all add: flow_event_def)

lemma flow_first_scope: "emits flow_event (first_scope R sel scs)"
proof (induction scs)
  case Nil
  show ?case by (simp add: emits_ret)
next
  case (Cons p scs)
  obtain name sc where p: "p = (name, sc)" by (cases p)
  show ?case unfolding p first_scope.simps selector_hits_def
    by (intro emits_basic Cons)
qed

lemma flow_resolve_scope_fast: "emits flow_event (resolve_scope_fast R cfg)"
  unfolding resolve_scope_fast_def
  by (intro emits_basic flow_first_scope)

lemma flow_find_table_fast: "emits flow_event (find_table_fast R sc cfg)"
  unfolding find_table_fast_def first_if_any_def Let_def
  by (intro emits_basic)

lemma flow_td_text: "emits flow_event (td_text R tds i)"
  unfolding td_text_def
  by (intro emits_basic)

lemma flow_wait_for_table: "emits flow_event (wait_for_table R cfg ms)"
  unfolding wait_for_table_def Let_def
  by (intro emits_basic flow_resolve_scope_fast flow_find_table_fast emits_act emits_sleep)
     (simp_all add: flow_event_def)

lemma flow_modal_candidates: "emits flow_event (modal_candidates R sc sels)"
proof (induction sels)
  case Nil
  show ?case by (simp add: emits_ret)
next
  case (Cons sel rest)
  show ?case unfolding modal_candidates.simps Let_def
    by (intro emits_basic Cons)
qed

lemma flow_modal_scopes: "emits flow_event (modal_scopes R cands scs)"
proof (induction scs)
  case Nil
  show ?case by (simp add: emits_ret)
next
  case (Cons p scs)
  obtain name sc where p: "p = (name, sc)" by (cases p)
  show ?case unfolding p modal_scopes.simps
    by (intro emits_basic flow_modal_candidates Cons)
qed

lemma flow_wait_for_modal: "emits flow_event (wait_for_modal R cfg ms)"
  unfolding wait_for_modal_def Let_def
  by (intro emits_basic flow_modal_scopes emits_sleep) (simp_all add: flow_event_def)

lemma flow_wait_for_explicit_teacher_tabs:
  "emits flow_event (wait_for_explicit_teacher_tabs R sc timeout_s)"
  unfolding wait_for_explicit_teacher_tabs_def Let_def
  by (intro emits_basic emits_sleep) (simp_all add: flow_event_def)

lemma flow_wait_tab_active_handle: "emits flow_event (wait_tab_active_handle R h timeout_s)"
  unfolding wait_tab_active_handle_def
  by (intro emits_basic emits_sleep) (simp_all add: flow_event_def)

lemma flow_collect_loop: "emits flow_event (collect_loop R top_y hs selected seen)"
proof (induction hs arbitrary: selected seen)
  case Nil
  show ?case by (simp add: emits_ret)
next
  case (Cons h hs)
  show ?case unfolding collect_loop.simps
    by (intro emits_basic Cons)
qed

lemma flow_collect_teacher_tabs: "emits flow_event (collect_teacher_tabs R l)"
  unfolding collect_teacher_tabs_def Let_def
  by (intro emits_basic flow_collect_loop)

lemma flow_click_question: "emits flow_event (click_question R cfg q)"
  unfolding click_question_def Let_def safe_click_def
  by (intro emits_basic flow_safe_click_on flow_rand_delay emits_act) (simp_all add: flow_event_def)

lemma flow_click_questions_loop: "emits flow_event (click_questions_loop R cfg ql is fs)"
proof (induction "is" arbitrary: fs)
  case Nil
  show ?case by (cases fs) (simp add: emits_ret)
next
  case (Cons i rest)
  obtain filled skipped where fs: "fs = (filled, skipped)" by (cases fs)
  show ?case unfolding fs click_questions_loop.simps
    by (intro emits_basic flow_click_question Cons)
qed

lemma flow_click_questions: "emits flow_event (click_questions R cfg ql)"
  unfolding click_questions_def
  by (intro emits_basic flow_click_questions_loop)

lemma flow_prefill_active_block: "emits flow_event (prefill_active_block R l cfg)"
  unfolding prefill_active_block_def Let_def
  by (intro emits_basic flow_click_questions emits_act) (simp_all add: flow_event_def)

lemma flow_confirm_in_scopes: "emits flow_event (confirm_in_scopes R cfg scs)"
proof (induction scs)
  case Nil
  show ?case by (simp add: emits_ret)
next
  case (Cons sc scs)
  show ?case unfolding confirm_in_scopes.simps Let_def safe_click_def
    by (intro emits_basic flow_safe_click_on Cons)
qed

lemma flow_confirm_tick: "emits flow_event (confirm_tick R cfg sc l deadline u)"
  unfolding confirm_tick_def
  by (intro emits_basic flow_confirm_in_scopes emits_act emits_sleep) (simp_all add: flow_event_def)

lemma flow_submit_and_confirm: "emits flow_event (submit_and_confirm R cfg sc l)"
  unfolding submit_and_confirm_def Let_def safe_click_def
  by (intro emits_basic flow_confirm_tick flow_safe_click_on flow_rand_delay emits_act)
     (simp_all add: flow_event_def)

lemma flow_explicit_tab: "emits flow_event (explicit_tab R cfg sc l gh)"
  unfolding explicit_tab_def Let_def safe_click_def
  by (intro emits_basic flow_safe_click_on flow_prefill_active_block emits_act)
     (simp_all add: flow_event_def)

lemma flow_explicit_tabs_loop: "emits flow_event (explicit_tabs_loop R cfg sc l tabs)"
proof (induction tabs)
  case Nil
  show ?case by (simp add: emits_ret)
next
  case (Cons p tabs)
  obtain gh name where p: "p = (gh, name)" by (cases p)
  show ?case unfolding p explicit_tabs_loop.simps
    by (intro emits_basic flow_explicit_tab Cons)
qed

lemma flow_heuristic_tabs_loop: "emits flow_event (heuristic_tabs_loop R cfg l tabs)"
proof (induction tabs)
  case Nil
  show ?case by (simp add: emits_ret)
next
  case (Cons p tabs)
  obtain name h where p: "p = (name, h)" by (cases p)
  show ?case unfolding p heuristic_tabs_loop.simps safe_click_handle_def
    by (intro emits_basic flow_safe_click_on flow_wait_tab_active_handle flow_rand_delay
        flow_prefill_active_block emits_act Cons) (simp_all add: flow_event_def)
qed

lemma flow_assist_item: "emits flow_event (assist_item R cfg tbl u)"
  unfolding assist_item_def Let_def safe_click_def
  by (intro emits_basic flow_td_text flow_safe_click_on flow_wait_for_modal
      flow_wait_for_explicit_teacher_tabs flow_explicit_tabs_loop flow_submit_and_confirm
      flow_collect_teacher_tabs flow_heuristic_tabs_loop flow_prefill_active_block)

lemma flow_assist_page: "emits flow_event (assist_page R cfg)"
  unfolding assist_page_def
  by (intro emits_basic flow_wait_for_table flow_assist_item)

lemma wait_cfg_fields:
  "selectors (cfg\<lparr>manual_submit_max_wait_s := v\<rparr>) = selectors cfg"
  "delays_ms (cfg\<lparr>manual_submit_max_wait_s := v\<rparr>) = delays_ms cfg"
  "rating_text (cfg\<lparr>manual_submit_max_wait_s := v\<rparr>) = rating_text cfg"
  "comment_templates (cfg\<lparr>manual_submit_max_wait_s := v\<rparr>) = comment_templates cfg"
  by simp_all

lemma wait_cfg_rand_delay:
  "rand_delay R (cfg\<lparr>manual_submit_max_wait_s := v\<rparr>) = rand_delay R cfg"
  unfolding rand_delay_def wait_cfg_fields by (rule refl)

lemma wait_cfg_resolve_scope_fast:
  "resolve_scope_fast R (cfg\<lparr>manual_submit_max_wait_s := v\<rparr>) = resolve_scope_fast R cfg"
  unfolding resolve_scope_fast_def wait_cfg_fields by (rule refl)

lemma wait_cfg_find_table_fast:
  "find_table_fast R sc (cfg\<lparr>manual_submit_max_wait_s := v\<rparr>) = find_table_fast R sc cfg"
  unfolding find_table_fast_def wait_cfg_fields by (rule refl)

lemma wait_cfg_wait_for_table:
  "wait_for_table R (cfg\<lparr>manual_submit_max_wait_s := v\<rparr>) ms = wait_for_table R cfg ms"
  unfolding wait_for_table_def wait_cfg_resolve_scope_fast wait_cfg_find_table_fast wait_cfg_fields by (rule refl)

lemma wait_cfg_wait_for_modal:
  "wait_for_modal R (cfg\<lparr>manual_submit_max_wait_s := v\<rparr>) ms = wait_for_modal R cfg ms"
  unfolding wait_for_modal_def wait_cfg_fields by (rule refl)

lemma wait_cfg_click_question:
  "click_question R (cfg\<lparr>manual_submit_max_wait_s := v\<rparr>) q = click_question R cfg q"
  unfolding click_question_def sel_preferred_label_def wait_cfg_rand_delay wait_cfg_fields by (rule refl)

lemma wait_cfg_click_questions_loop:
  "click_questions_loop R (cfg\<lparr>manual_submit_max_wait_s := v\<rparr>) ql is fs =
   click_questions_loop R cfg ql is fs"
proof (induction "is" arbitrary: fs)
  case Nil
  show ?case by (cases fs) simp
next
  case (Cons i rest)
  obtain filled skipped where fs: "fs = (filled, skipped)" by (cases fs)
  show ?case unfolding fs click_questions_loop.simps wait_cfg_click_question Cons by (rule refl)
qed

lemma wait_cfg_click_questions:
  "click_questions R (cfg\<lparr>manual_submit_max_wait_s := v\<rparr>) ql = click_questions R cfg ql"
  unfolding click_questions_def wait_cfg_click_questions_loop wait_cfg_fields by (rule refl)

lemma wait_cfg_prefill_active_block:
  "prefill_active_block R l (cfg\<lparr>manual_submit_max_wait_s := v\<rparr>) = prefill_active_block R l cfg"
  unfolding prefill_active_block_def wait_cfg_click_questions wait_cfg_fields by (rule refl)

lemma wait_cfg_confirm_in_scopes:
  "confirm_in_scopes R (cfg\<lparr>manual_submit_max_wait_s := v\<rparr>) scs = confirm_in_scopes R cfg scs"
proof (induction scs)
  case Nil
  show ?case by simp
next
  case (Cons sc scs)
  show ?case unfolding confirm_in_scopes.simps wait_cfg_fields Cons by (rule refl)
qed

lemma wait_cfg_confirm_tick:
  "confirm_tick R (cfg\<lparr>manual_submit_max_wait_s := v\<rparr>) sc l d = confirm_tick R cfg sc l d"
  unfolding confirm_tick_def wait_cfg_confirm_in_scopes wait_cfg_fields by (rule refl)

lemma wait_cfg_submit_and_confirm:
  "submit_and_confirm R (cfg\<lparr>manual_submit_max_wait_s := v\<rparr>) sc l = submit_and_confirm R cfg sc l"
  unfolding submit_and_confirm_def wait_cfg_confirm_tick wait_cfg_rand_delay wait_cfg_fields by (rule refl)

lemma wait_cfg_explicit_tab:
  "explicit_tab R (cfg\<lparr>manual_submit_max_wait_s := v\<rparr>) sc l gh = explicit_tab R cfg sc l gh"
  unfolding explicit_tab_def wait_cfg_prefill_active_block wait_cfg_fields by (rule refl)

lemma wait_cfg_explicit_tabs_loop:
  "explicit_tabs_loop R (cfg\<lparr>manual_submit_max_wait_s := v\<rparr>) sc l tabs =
   explicit_tabs_loop R cfg sc l tabs"
proof (induction tabs)
  case Nil
  show ?case by simp
next
  case (Cons p tabs)
  obtain gh name where p: "p = (gh, name)" by (cases p)
  show ?case unfolding p explicit_tabs_loop.simps wait_cfg_explicit_tab Cons by (rule refl)
qed

lemma wait_cfg_heuristic_tabs_loop:
  "heuristic_tabs_loop R (cfg\<lparr>manual_submit_max_wait_s := v\<rparr>) l tabs =
   heuristic_tabs_loop R cfg l tabs"
proof (induction tabs)
  case Nil
  show ?case by simp
next
  case (Cons p tabs)
  obtain name h where p: "p = (name, h)" by (cases p)
  show ?case
    unfolding p heuristic_tabs_loop.simps wait_cfg_rand_delay wait_cfg_prefill_active_block Cons
    by (rule refl)
qed

lemma wait_cfg_assist_item:
  "assist_item R (cfg\<lparr>manual_submit_max_wait_s := v\<rparr>) tbl = assist_item R cfg tbl"
  unfolding assist_item_def wait_cfg_wait_for_modal wait_cfg_explicit_tabs_loop
    wait_cfg_submit_and_confirm wait_cfg_heuristic_tabs_loop wait_cfg_prefill_active_block
    wait_cfg_fields
  by (rule refl)

lemma wait_cfg_assist_page:
  "assist_page R (cfg\<lparr>manual_submit_max_wait_s := v\<rparr>) = assist_page R cfg"
  unfolding assist_page_def wait_cfg_wait_for_table wait_cfg_assist_item wait_cfg_fields by (rule refl)

text \<open>
  Claim C10.  \<open>assist_page\<close> is the same program for two configurations that differ only
  in \<open>manual_submit_max_wait_s\<close>: in every world it makes the same calls and gives the same
  result.  \<open>_wait_modal_closed\<close>, the only reader of that field, is not among the functions
  the flow calls; accordingly its progress message never appears among the calls of the
  flow, and every wait of the flow for an element to be hidden, the wait after a submit
  among them, has the fixed timeout of 10000 milliseconds.
\<close>

theorem flow_ignores_manual_wait:
  "assist_page R (cfg\<lparr>manual_submit_max_wait_s := v\<rparr>) = assist_page R cfg \<and>
   (\<forall>w r w'. assist_page R cfg w = Some (r, w') \<longrightarrow>
      (\<exists>evs. trace w' = trace w @ evs \<and> list_all flow_event evs))"
proof
  show "assist_page R (cfg\<lparr>manual_submit_max_wait_s := v\<rparr>) = assist_page R cfg"
    by (rule wait_cfg_assist_page)
  show "\<forall>w r w'. assist_page R cfg w = Some (r, w') \<longrightarrow>
      (\<exists>evs. trace w' = trace w @ evs \<and> list_all flow_event evs)"
    using flow_assist_page [of R cfg] by (simp add: emits_def)
qed

text \<open>The run of the flow on the example portal with one pending row.\<close>

lemmas run_simps = bnd_apply try_except_apply ret_apply raise_apply count_eq act_eq
  is_visible_def get_attribute_def inner_text_def bounding_box_def element_handles_def
  query_def monotonic_def sleep_def randint_def choice_def emit_def first_of_def
  best_effort_def except_timeout_def scopes_def iter_scopes_def selector_hits_def
  first_if_any_def Let_def

lemmas portal_simps = portal_def idle_runtime_def portal_count_def portal_step_def portal_table_def
  portal_buttons_def portal_modal_def portal_submit_def example_config_def example_selectors_def

lemmas flow_defs = assist_item_def td_text_def safe_click_def safe_click_on_def
  wait_for_modal_def wait_for_explicit_teacher_tabs_def explicit_tab_def prefill_active_block_def
  click_questions_def submit_and_confirm_def confirm_tick_def rand_delay_def

lemmas string_defs = ascii_def dq_def default_pending_button_def sel_title_teacher_def
  sel_tab_by_gh_def sel_active_tab_by_gh_def sel_active_block_by_gh_def sel_next_by_id_def
  sel_next_by_text_def or_empty_def

lemma portal_resolve:
  "resolve_scope_fast (portal paged) example_config w = Some (Inr SPage, w)"
  by (simp add: run_simps resolve_scope_fast_def portal_simps)

lemma portal_wait_for_table:
  "wait_for_table (portal paged) example_config 30000 \<lparr>env = e, trace = tr\<rparr> =
     Some (Inr (SPage, First portal_table),
           \<lparr>env = e, trace = tr @ [ExpectVisible (First portal_table) (Some 1000)]\<rparr>)"
  unfolding wait_for_table_def
  apply (simp add: run_simps)
  apply (subst loop.simps)
  apply (simp add: run_simps resolve_scope_fast_def find_table_fast_def portal_simps)
  done

lemma portal_done:
  "assist_page (portal paged) example_config \<lparr>env = \<lparr>ps_pending = 0, ps_open = False\<rparr>, trace = tr\<rparr> =
     Some (Inr (), \<lparr>env = \<lparr>ps_pending = 0, ps_open = False\<rparr>,
                    trace = tr @ [ExpectVisible (First portal_table) (Some 1000)]\<rparr>)"
  unfolding assist_page_def
  apply (simp add: bnd_apply portal_wait_for_table)
  apply (subst loop.simps)
  apply (simp add: run_simps assist_item_def portal_simps string_defs)
  done

lemma portal_run:
  "assist_page (portal False) example_config \<lparr>env = \<lparr>ps_pending = 1, ps_open = False\<rparr>, trace = []\<rparr> =
     Some (Inr (), \<lparr>env = \<lparr>ps_pending = 0, ps_open = False\<rparr>, trace = portal_trace\<rparr>)"
  unfolding assist_page_def portal_trace_def
  apply (simp add: bnd_apply portal_wait_for_table)
  apply (simp add: run_simps flow_defs portal_simps loop.simps string_defs)
  done

theorem flow_ignores_manual_wait_witness:
  "assist_page (portal False) (example_config\<lparr>manual_submit_max_wait_s := 600\<rparr>)
       \<lparr>env = \<lparr>ps_pending = 1, ps_open = False\<rparr>, trace = []\<rparr> =
     Some (Inr (), \<lparr>env = \<lparr>ps_pending = 0, ps_open = False\<rparr>, trace = portal_trace\<rparr>) \<and>
   list_all flow_event portal_trace \<and>
   ExpectHidden portal_modal (Some 10000) \<in> set portal_trace"
proof -
  note same = flow_ignores_manual_wait [THEN conjunct1]
  note calls = flow_ignores_manual_wait [THEN conjunct2, rule_format]
  have a: "assist_page (portal False) (example_config\<lparr>manual_submit_max_wait_s := 600\<rparr>)
       \<lparr>env = \<lparr>ps_pending = 1, ps_open = False\<rparr>, trace = []\<rparr> =
     Some (Inr (), \<lparr>env = \<lparr>ps_pending = 0, ps_open = False\<rparr>, trace = portal_trace\<rparr>)"
    unfolding same by (rule portal_run)
  from calls [OF portal_run]
  have b: "list_all flow_event portal_trace" by simp
  have c: "ExpectHidden portal_modal (Some 10000) \<in> set portal_trace"
    by (simp add: portal_trace_def)
  from a b c show ?thesis by blast
qed

subsection \<open>Pagination\<close>

lemma read_parent_eq:
  "try_except
     (bnd (get_attribute R (OnLocator (Loc el (PStr (ascii ''xpath=..'')))) (ascii ''class''))
        (\<lambda>pc. ret (or_empty pc)))
     (\<lambda>_. ret []) w = Some (Inr (parent_classes R (env w) el), w)"
  by (simp add: try_except_apply bnd_apply get_attribute_eq ret_apply parent_classes_def
      split: sum.splits)

text \<open>
  Against claim C6 as worded.  The claim that pagination stops exactly when the control is absent, carries a disabled
  class on itself or its parent, or has \<open>aria-disabled\<close> equal to \<open>true\<close> does not hold as
  worded: the code compares the lower-cased attribute, so a control whose attribute reads
  \<open>TRUE\<close>, with no disabled class anywhere, also ends the run, without a click.
\<close>

theorem next_page_uppercase_counterexample:
  "rt_count shouting_next () (Loc (Root SPage) sel_next_by_id) = Inr 1 \<and>
   rt_get_attribute shouting_next () (OnLocator (First (Loc (Root SPage) sel_next_by_id)))
     (ascii ''class'') = Inr None \<and>
   parent_classes shouting_next () (First (Loc (Root SPage) sel_next_by_id)) = [] \<and>
   rt_get_attribute shouting_next () (OnLocator (First (Loc (Root SPage) sel_next_by_id)))
     (ascii ''aria-disabled'') = Inr (Some (ascii ''TRUE'')) \<and>
   ascii ''TRUE'' \<noteq> ascii ''true'' \<and>
   next_page shouting_next SPage empty_run = Some (Inr (Inr ()), empty_run)"
  by (simp add: shouting_next_def page_with_def idle_runtime_def parent_classes_def or_empty_def
      next_page_def run_simps ascii_def ascii_lower_def empty_run_def)

text \<open>
  Claim C6, amended.  After \<open>assist_page\<close> has drained the page, the next-page control is
  looked up by id, and by the words for "next page" when the id matches nothing.  When
  neither matches, the run ends.  When the control is there, its class and then its
  \<open>aria-disabled\<close> attribute are read, and the run ends exactly when its class contains
  \<open>disabled\<close>, or the class of its parent contains \<open>disabled\<close> (a parent whose class cannot
  be read counts as having none), or its \<open>aria-disabled\<close> attribute, lower-cased, equals
  \<open>true\<close>; in every other case the control is clicked, 500 milliseconds are waited, and
  the loop of \<open>assist_all_pages\<close> goes round again from the world so reached.  An exception
  raised by one of the two counts or by reading the control's own class or \<open>aria-disabled\<close>
  is not caught: it ends \<open>assist_all_pages\<close> with that exception and nothing is clicked;
  an exception of the click or of the wait after it ends it likewise.
\<close>

theorem next_page_decision:
  "(\<forall>ex. rt_count R (env w) (Loc (Root sc) sel_next_by_id) = Inl ex \<longrightarrow>
      next_page R sc w = Some (Inl ex, w)) \<and>
   (\<forall>n ex. rt_count R (env w) (Loc (Root sc) sel_next_by_id) = Inr n \<and>
      rt_count R (env w) (next_control R (env w) sc) = Inl ex \<longrightarrow>
      next_page R sc w = Some (Inl ex, w)) \<and>
   (\<forall>n. rt_count R (env w) (Loc (Root sc) sel_next_by_id) = Inr n \<and>
      rt_count R (env w) (next_control R (env w) sc) = Inr 0 \<longrightarrow>
      next_page R sc w = Some (Inr (Inr ()), w)) \<and>
   (\<forall>n m ex.
      rt_count R (env w) (Loc (Root sc) sel_next_by_id) = Inr n \<and>
      rt_count R (env w) (next_control R (env w) sc) = Inr m \<and> m \<noteq> 0 \<and>
      rt_get_attribute R (env w) (OnLocator (First (next_control R (env w) sc))) (ascii ''class'') = Inl ex
      \<longrightarrow> next_page R sc w = Some (Inl ex, w)) \<and>
   (\<forall>n m c ex.
      rt_count R (env w) (Loc (Root sc) sel_next_by_id) = Inr n \<and>
      rt_count R (env w) (next_control R (env w) sc) = Inr m \<and> m \<noteq> 0 \<and>
      rt_get_attribute R (env w) (OnLocator (First (next_control R (env w) sc))) (ascii ''class'') = Inr c \<and>
      rt_get_attribute R (env w) (OnLocator (First (next_control R (env w) sc))) (ascii ''aria-disabled'') = Inl ex
      \<longrightarrow> next_page R sc w = Some (Inl ex, w)) \<and>
   (\<forall>n m c a.
      rt_count R (env w) (Loc (Root sc) sel_next_by_id) = Inr n \<and>
      rt_count R (env w) (next_control R (env w) sc) = Inr m \<and> m \<noteq> 0 \<and>
      rt_get_attribute R (env w) (OnLocator (First (next_control R (env w) sc))) (ascii ''class'') = Inr c \<and>
      rt_get_attribute R (env w) (OnLocator (First (next_control R (env w) sc))) (ascii ''aria-disabled'') = Inr a
      \<longrightarrow>
      next_page R sc w =
        (if contains (or_empty c) (ascii ''disabled'') \<or>
            contains (parent_classes R (env w) (First (next_control R (env w) sc))) (ascii ''disabled'') \<or>
            rt_str_lower R (or_empty a) = ascii ''true''
         then Some (Inr (Inr ()), w)
         else bnd (act R (Click (OnLocator (First (next_control R (env w) sc))) None False))
                (\<lambda>_. bnd (act R (WaitForTimeout 500)) (\<lambda>_. ret (Inl ()))) w)) \<and>
   (\<forall>w1 w2. resolve_scope_fast R cfg w = Some (Inr sc, w) \<and>
      assist_page R cfg w = Some (Inr (), w1) \<and> next_page R sc w1 = Some (Inr (Inl ()), w2) \<longrightarrow>
      loop (assist_all_pages_round R cfg) () w = loop (assist_all_pages_round R cfg) () w2) \<and>
   (\<forall>w1. resolve_scope_fast R cfg w = Some (Inr sc, w) \<and>
      assist_page R cfg w = Some (Inr (), w1) \<and> next_page R sc w1 = Some (Inr (Inr ()), w1) \<longrightarrow>
      loop (assist_all_pages_round R cfg) () w = Some (Inr (), w1)) \<and>
   (\<forall>w1 ex w2. resolve_scope_fast R cfg w = Some (Inr sc, w) \<and>
      assist_page R cfg w = Some (Inr (), w1) \<and> next_page R sc w1 = Some (Inl ex, w2) \<longrightarrow>
      loop (assist_all_pages_round R cfg) () w = Some (Inl ex, w2))"
proof (intro conjI allI impI)
  fix ex
  assume "rt_count R (env w) (Loc (Root sc) sel_next_by_id) = Inl ex"
  then show "next_page R sc w = Some (Inl ex, w)"
    by (simp add: next_page_def Let_def bnd_apply count_eq)
next
  fix n ex
  assume h: "rt_count R (env w) (Loc (Root sc) sel_next_by_id) = Inr n \<and>
      rt_count R (env w) (next_control R (env w) sc) = Inl ex"
  have nc: "(if n = 0 then Loc (Root sc) sel_next_by_text else Loc (Root sc) sel_next_by_id)
      = next_control R (env w) sc"
    using h by (simp add: next_control_def)
  show "next_page R sc w = Some (Inl ex, w)"
    using h by (simp add: next_page_def Let_def bnd_apply count_eq nc)
next
  fix n
  assume h: "rt_count R (env w) (Loc (Root sc) sel_next_by_id) = Inr n \<and>
      rt_count R (env w) (next_control R (env w) sc) = Inr 0"
  have nc: "(if n = 0 then Loc (Root sc) sel_next_by_text else Loc (Root sc) sel_next_by_id)
      = next_control R (env w) sc"
    using h by (simp add: next_control_def)
  show "next_page R sc w = Some (Inr (Inr ()), w)"
    using h by (simp add: next_page_def Let_def bnd_apply count_eq nc ret_apply)
next
  fix n m ex
  assume h: "rt_count R (env w) (Loc (Root sc) sel_next_by_id) = Inr n \<and>
      rt_count R (env w) (next_control R (env w) sc) = Inr m \<and> m \<noteq> 0 \<and>
      rt_get_attribute R (env w) (OnLocator (First (next_control R (env w) sc))) (ascii ''class'') = Inl ex"
  have nc: "(if n = 0 then Loc (Root sc) sel_next_by_text else Loc (Root sc) sel_next_by_id)
      = next_control R (env w) sc"
    using h by (simp add: next_control_def)
  show "next_page R sc w = Some (Inl ex, w)"
    using h by (simp add: next_page_def Let_def bnd_apply count_eq nc get_attribute_eq)
next
  fix n m c ex
  assume h: "rt_count R (env w) (Loc (Root sc) sel_next_by_id) = Inr n \<and>
      rt_count R (env w) (next_control R (env w) sc) = Inr m \<and> m \<noteq> 0 \<and>
      rt_get_attribute R (env w) (OnLocator (First (next_control R (env w) sc))) (ascii ''class'') = Inr c \<and>
      rt_get_attribute R (env w) (OnLocator (First (next_control R (env w) sc))) (ascii ''aria-disabled'') = Inl ex"
  have nc: "(if n = 0 then Loc (Root sc) sel_next_by_text else Loc (Root sc) sel_next_by_id)
      = next_control R (env w) sc"
    using h by (simp add: next_control_def)
  show "next_page R sc w = Some (Inl ex, w)"
    using h by (simp add: next_page_def Let_def bnd_apply count_eq nc get_attribute_eq)
next
  fix n m c a
  assume h: "rt_count R (env w) (Loc (Root sc) sel_next_by_id) = Inr n \<and>
      rt_count R (env w) (next_control R (env w) sc) = Inr m \<and> m \<noteq> 0 \<and>
      rt_get_attribute R (env w) (OnLocator (First (next_control R (env w) sc))) (ascii ''class'') = Inr c \<and>
      rt_get_attribute R (env w) (OnLocator (First (next_control R (env w) sc))) (ascii ''aria-disabled'') = Inr a"
  have nc: "(if n = 0 then Loc (Root sc) sel_next_by_text else Loc (Root sc) sel_next_by_id)
      = next_control R (env w) sc"
    using h by (simp add: next_control_def)
  show "next_page R sc w =
        (if contains (or_empty c) (ascii ''disabled'') \<or>
            contains (parent_classes R (env w) (First (next_control R (env w) sc))) (ascii ''disabled'') \<or>
            rt_str_lower R (or_empty a) = ascii ''true''
         then Some (Inr (Inr ()), w)
         else bnd (act R (Click (OnLocator (First (next_control R (env w) sc))) None False))
                (\<lambda>_. bnd (act R (WaitForTimeout 500)) (\<lambda>_. ret (Inl ()))) w)"
    using h
    by (simp add: next_page_def Let_def bnd_apply [of "count R _"] bnd_apply [of "get_attribute R _ _"]
        bnd_apply [of "try_except _ _"] count_eq nc get_attribute_eq read_parent_eq ret_apply)
next
  fix w1 w2
  assume "resolve_scope_fast R cfg w = Some (Inr sc, w) \<and>
      assist_page R cfg w = Some (Inr (), w1) \<and> next_page R sc w1 = Some (Inr (Inl ()), w2)"
  then show "loop (assist_all_pages_round R cfg) () w = loop (assist_all_pages_round R cfg) () w2"
    by (subst loop.simps) (simp add: assist_all_pages_round_def bnd_apply)
next
  fix w1
  assume "resolve_scope_fast R cfg w = Some (Inr sc, w) \<and>
      assist_page R cfg w = Some (Inr (), w1) \<and> next_page R sc w1 = Some (Inr (Inr ()), w1)"
  then show "loop (assist_all_pages_round R cfg) () w = Some (Inr (), w1)"
    by (subst loop.simps) (simp add: assist_all_pages_round_def bnd_apply)
next
  fix w1 ex w2
  assume "resolve_scope_fast R cfg w = Some (Inr sc, w) \<and>
      assist_page R cfg w = Some (Inr (), w1) \<and> next_page R sc w1 = Some (Inl ex, w2)"
  then show "loop (assist_all_pages_round R cfg) () w = Some (Inl ex, w2)"
    by (subst loop.simps) (simp add: assist_all_pages_round_def bnd_apply)
qed

lemma portal_next_more:
  "next_page (portal True) SPage \<lparr>env = \<lparr>ps_pending = 0, ps_open = False\<rparr>, trace = tr\<rparr> =
     Some (Inr (Inl ()), \<lparr>env = \<lparr>ps_pending = 0, ps_open = False\<rparr>,
        trace = tr @ [Click (OnLocator (First (Loc (Root SPage) sel_next_by_id))) None False,
                      WaitForTimeout 500]\<rparr>)"
  by (simp add: next_page_def run_simps portal_simps string_defs ascii_lower_def contains_def)

lemma portal_next_last:
  "next_page (portal False) SPage \<lparr>env = \<lparr>ps_pending = 0, ps_open = False\<rparr>, trace = tr\<rparr> =
     Some (Inr (Inr ()), \<lparr>env = \<lparr>ps_pending = 0, ps_open = False\<rparr>, trace = tr\<rparr>)"
  by (simp add: next_page_def run_simps portal_simps string_defs)

lemma next_probe_reads:
  "rt_count (next_probe by_id by_text cls aria) e (Loc (Root SPage) sel_next_by_id) = by_id"
  "rt_count (next_probe by_id by_text cls aria) e (Loc (Root SPage) sel_next_by_text) = by_text"
  "rt_get_attribute (next_probe by_id by_text cls aria) e (OnLocator (First l)) (ascii ''class'') = cls"
  "rt_get_attribute (next_probe by_id by_text cls aria) e (OnLocator (First l)) (ascii ''aria-disabled'')
     = aria"
  "rt_get_attribute (next_probe by_id by_text cls aria) e (OnLocator (Loc l sel)) a = Inr None"
  "rt_perform (next_probe by_id by_text cls aria) ev e = (Inr (), e)"
  "rt_str_lower (next_probe by_id by_text cls aria) = ascii_lower"
  by (simp_all add: next_probe_def idle_runtime_def string_defs)

lemma next_probe_control:
  "next_control (next_probe (Inr (Suc n)) by_text cls aria) e SPage = Loc (Root SPage) sel_next_by_id"
  "next_control (next_probe (Inr 0) by_text cls aria) e SPage = Loc (Root SPage) sel_next_by_text"
  "next_control (next_probe (Inl ex) by_text cls aria) e SPage = Loc (Root SPage) sel_next_by_id"
  by (simp_all add: next_control_def next_probe_reads)

lemma locked_resolve:
  "resolve_scope_fast portal_locked example_config w = Some (Inr SPage, w)"
  by (simp add: run_simps resolve_scope_fast_def portal_locked_def portal_simps)

lemma locked_wait_for_table:
  "wait_for_table portal_locked example_config 30000 \<lparr>env = e, trace = tr\<rparr> =
     Some (Inr (SPage, First portal_table),
           \<lparr>env = e, trace = tr @ [ExpectVisible (First portal_table) (Some 1000)]\<rparr>)"
  unfolding wait_for_table_def
  apply (simp add: run_simps)
  apply (subst loop.simps)
  apply (simp add: run_simps resolve_scope_fast_def find_table_fast_def portal_locked_def portal_simps)
  done

lemma locked_done:
  "assist_page portal_locked example_config \<lparr>env = \<lparr>ps_pending = 0, ps_open = False\<rparr>, trace = tr\<rparr> =
     Some (Inr (), \<lparr>env = \<lparr>ps_pending = 0, ps_open = False\<rparr>,
                    trace = tr @ [ExpectVisible (First portal_table) (Some 1000)]\<rparr>)"
  unfolding assist_page_def
  apply (simp add: bnd_apply locked_wait_for_table)
  apply (subst loop.simps)
  apply (simp add: run_simps assist_item_def portal_locked_def portal_simps string_defs)
  done

lemma locked_next:
  "next_page portal_locked SPage \<lparr>env = \<lparr>ps_pending = 0, ps_open = False\<rparr>, trace = tr\<rparr> =
     Some (Inl PlaywrightError, \<lparr>env = \<lparr>ps_pending = 0, ps_open = False\<rparr>, trace = tr\<rparr>)"
  by (simp add: next_page_def run_simps portal_locked_def portal_simps string_defs)

theorem next_page_decision_witness:
  "next_page (next_probe (Inl PlaywrightError) (Inr 1) (Inr None) (Inr None)) SPage empty_run =
     Some (Inl PlaywrightError, empty_run) \<and>
   next_page (next_probe (Inr 0) (Inl PlaywrightError) (Inr None) (Inr None)) SPage empty_run =
     Some (Inl PlaywrightError, empty_run) \<and>
   next_page (next_probe (Inr 0) (Inr 0) (Inr None) (Inr None)) SPage empty_run =
     Some (Inr (Inr ()), empty_run) \<and>
   next_page (next_probe (Inr 1) (Inr 0) (Inl PlaywrightError) (Inr None)) SPage empty_run =
     Some (Inl PlaywrightError, empty_run) \<and>
   next_page (next_probe (Inr 1) (Inr 0) (Inr None) (Inl PlaywrightError)) SPage empty_run =
     Some (Inl PlaywrightError, empty_run) \<and>
   next_page (next_probe (Inr 0) (Inr 2) (Inr (Some (ascii ''paginate_button next disabled'')))
       (Inr None)) SPage empty_run =
     Some (Inr (Inr ()), empty_run) \<and>
   next_page (next_probe (Inr 1) (Inr 0) (Inr (Some (ascii ''paginate_button next''))) (Inr None))
       SPage empty_run =
     Some (Inr (Inl ()),
           \<lparr>env = (), trace = [Click (OnLocator (First (Loc (Root SPage) sel_next_by_id))) None False,
                               WaitForTimeout 500]\<rparr>) \<and>
   loop (assist_all_pages_round (portal True) example_config) ()
       \<lparr>env = \<lparr>ps_pending = 0, ps_open = False\<rparr>, trace = []\<rparr> =
     loop (assist_all_pages_round (portal True) example_config) ()
       \<lparr>env = \<lparr>ps_pending = 0, ps_open = False\<rparr>,
        trace = [ExpectVisible (First portal_table) (Some 1000),
                 Click (OnLocator (First (Loc (Root SPage) sel_next_by_id))) None False,
                 WaitForTimeout 500]\<rparr> \<and>
   loop (assist_all_pages_round (portal False) example_config) ()
       \<lparr>env = \<lparr>ps_pending = 0, ps_open = False\<rparr>, trace = []\<rparr> =
     Some (Inr (), \<lparr>env = \<lparr>ps_pending = 0, ps_open = False\<rparr>,
                    trace = [ExpectVisible (First portal_table) (Some 1000)]\<rparr>) \<and>
   loop (assist_all_pages_round portal_locked example_config) ()
       \<lparr>env = \<lparr>ps_pending = 0, ps_open = False\<rparr>, trace = []\<rparr> =
     Some (Inl PlaywrightError, \<lparr>env = \<lparr>ps_pending = 0, ps_open = False\<rparr>,
                    trace = [ExpectVisible (First portal_table) (Some 1000)]\<rparr>)"
proof -
  note at = next_page_decision [where w = empty_run and sc = SPage]
  note c1 = at [THEN conjunct1, rule_format]
  note c2 = at [THEN conjunct2, THEN conjunct1, rule_format]
  note c3 = at [THEN conjunct2, THEN conjunct2, THEN conjunct1, rule_format]
  note c4 = at [THEN conjunct2, THEN conjunct2, THEN conjunct2, THEN conjunct1, rule_format]
  note c5 = at [THEN conjunct2, THEN conjunct2, THEN conjunct2, THEN conjunct2, THEN conjunct1,
      rule_format]
  note c6 = at [THEN conjunct2, THEN conjunct2, THEN conjunct2, THEN conjunct2, THEN conjunct2,
      THEN conjunct1, rule_format]
  have a: "next_page (next_probe (Inl PlaywrightError) (Inr 1) (Inr None) (Inr None)) SPage empty_run =
     Some (Inl PlaywrightError, empty_run)"
    by (rule c1) (simp add: next_probe_reads)
  have b: "next_page (next_probe (Inr 0) (Inl PlaywrightError) (Inr None) (Inr None)) SPage empty_run =
     Some (Inl PlaywrightError, empty_run)"
    by (rule c2 [of _ 0]) (simp add: next_probe_reads next_probe_control)
  have c: "next_page (next_probe (Inr 0) (Inr 0) (Inr None) (Inr None)) SPage empty_run =
     Some (Inr (Inr ()), empty_run)"
    by (rule c3 [of _ 0]) (simp add: next_probe_reads next_probe_control)
  have d: "next_page (next_probe (Inr 1) (Inr 0) (Inl PlaywrightError) (Inr None)) SPage empty_run =
     Some (Inl PlaywrightError, empty_run)"
    by (rule c4 [of _ 1 1]) (simp add: next_probe_reads next_probe_control)
  have e: "next_page (next_probe (Inr 1) (Inr 0) (Inr None) (Inl PlaywrightError)) SPage empty_run =
     Some (Inl PlaywrightError, empty_run)"
    by (rule c5 [of _ 1 1 None]) (simp add: next_probe_reads next_probe_control)
  have f0: "rt_count (next_probe (Inr 0) (Inr 2) (Inr (Some (ascii ''paginate_button next disabled'')))
         (Inr None)) (env empty_run) (Loc (Root SPage) sel_next_by_id) = Inr 0 \<and>
      rt_count (next_probe (Inr 0) (Inr 2) (Inr (Some (ascii ''paginate_button next disabled'')))
         (Inr None)) (env empty_run)
        (next_control (next_probe (Inr 0) (Inr 2) (Inr (Some (ascii ''paginate_button next disabled'')))
         (Inr None)) (env empty_run) SPage) = Inr 2 \<and> (2 :: nat) \<noteq> 0 \<and>
      rt_get_attribute (next_probe (Inr 0) (Inr 2) (Inr (Some (ascii ''paginate_button next disabled'')))
         (Inr None)) (env empty_run)
        (OnLocator (First (next_control (next_probe (Inr 0) (Inr 2)
           (Inr (Some (ascii ''paginate_button next disabled''))) (Inr None)) (env empty_run) SPage)))
        (ascii ''class'') = Inr (Some (ascii ''paginate_button next disabled'')) \<and>
      rt_get_attribute (next_probe (Inr 0) (Inr 2) (Inr (Some (ascii ''paginate_button next disabled'')))
         (Inr None)) (env empty_run)
        (OnLocator (First (next_control (next_probe (Inr 0) (Inr 2)
           (Inr (Some (ascii ''paginate_button next disabled''))) (Inr None)) (env empty_run) SPage)))
        (ascii ''aria-disabled'') = Inr None"
    by (simp add: next_probe_reads next_probe_control)
  have f: "next_page (next_probe (Inr 0) (Inr 2) (Inr (Some (ascii ''paginate_button next disabled'')))
       (Inr None)) SPage empty_run = Some (Inr (Inr ()), empty_run)"
    unfolding c6 [OF f0] by (simp add: or_empty_def ascii_def startswith_def)
  have g0: "rt_count (next_probe (Inr 1) (Inr 0) (Inr (Some (ascii ''paginate_button next''))) (Inr None))
         (env empty_run) (Loc (Root SPage) sel_next_by_id) = Inr 1 \<and>
      rt_count (next_probe (Inr 1) (Inr 0) (Inr (Some (ascii ''paginate_button next''))) (Inr None))
         (env empty_run)
        (next_control (next_probe (Inr 1) (Inr 0) (Inr (Some (ascii ''paginate_button next'')))
           (Inr None)) (env empty_run) SPage) = Inr 1 \<and> (1 :: nat) \<noteq> 0 \<and>
      rt_get_attribute (next_probe (Inr 1) (Inr 0) (Inr (Some (ascii ''paginate_button next'')))
         (Inr None)) (env empty_run)
        (OnLocator (First (next_control (next_probe (Inr 1) (Inr 0)
           (Inr (Some (ascii ''paginate_button next''))) (Inr None)) (env empty_run) SPage)))
        (ascii ''class'') = Inr (Some (ascii ''paginate_button next'')) \<and>
      rt_get_attribute (next_probe (Inr 1) (Inr 0) (Inr (Some (ascii ''paginate_button next'')))
         (Inr None)) (env empty_run)
        (OnLocator (First (next_control (next_probe (Inr 1) (Inr 0)
           (Inr (Some (ascii ''paginate_button next''))) (Inr None)) (env empty_run) SPage)))
        (ascii ''aria-disabled'') = Inr None"
    by (simp add: next_probe_reads next_probe_control)
  have g1: "parent_classes (next_probe (Inr 1) (Inr 0) (Inr (Some (ascii ''paginate_button next'')))
         (Inr None)) e (First l) = []"
    for e l by (simp add: parent_classes_def next_probe_reads or_empty_def)
  have g: "next_page (next_probe (Inr 1) (Inr 0) (Inr (Some (ascii ''paginate_button next''))) (Inr None))
       SPage empty_run =
     Some (Inr (Inl ()),
           \<lparr>env = (), trace = [Click (OnLocator (First (Loc (Root SPage) sel_next_by_id))) None False,
                               WaitForTimeout 500]\<rparr>)"
    unfolding c6 [OF g0] g1
    by (simp add: or_empty_def ascii_def startswith_def ascii_lower_def run_simps empty_run_def
        next_probe_def idle_runtime_def next_control_def)
  have h: "loop (assist_all_pages_round (portal True) example_config) ()
       \<lparr>env = \<lparr>ps_pending = 0, ps_open = False\<rparr>, trace = []\<rparr> =
     loop (assist_all_pages_round (portal True) example_config) ()
       \<lparr>env = \<lparr>ps_pending = 0, ps_open = False\<rparr>,
        trace = [ExpectVisible (First portal_table) (Some 1000),
                 Click (OnLocator (First (Loc (Root SPage) sel_next_by_id))) None False,
                 WaitForTimeout 500]\<rparr>"
    using next_page_decision [where R = "portal True" and cfg = example_config and sc = SPage
        and w = "\<lparr>env = \<lparr>ps_pending = 0, ps_open = False\<rparr>, trace = []\<rparr>",
        THEN conjunct2, THEN conjunct2, THEN conjunct2, THEN conjunct2, THEN conjunct2,
        THEN conjunct2, THEN conjunct1, rule_format,
        OF conjI [OF portal_resolve conjI [OF portal_done portal_next_more]]]
    by simp
  have i: "loop (assist_all_pages_round (portal False) example_config) ()
       \<lparr>env = \<lparr>ps_pending = 0, ps_open = False\<rparr>, trace = []\<rparr> =
     Some (Inr (), \<lparr>env = \<lparr>ps_pending = 0, ps_open = False\<rparr>,
                    trace = [ExpectVisible (First portal_table) (Some 1000)]\<rparr>)"
    using next_page_decision [where R = "portal False" and cfg = example_config and sc = SPage
        and w = "\<lparr>env = \<lparr>ps_pending = 0, ps_open = False\<rparr>, trace = []\<rparr>",
        THEN conjunct2, THEN conjunct2, THEN conjunct2, THEN conjunct2, THEN conjunct2,
        THEN conjunct2, THEN conjunct2, THEN conjunct1, rule_format,
        OF conjI [OF portal_resolve conjI [OF portal_done portal_next_last]]]
    by simp
  have j: "loop (assist_all_pages_round portal_locked example_config) ()
       \<lparr>env = \<lparr>ps_pending = 0, ps_open = False\<rparr>, trace = []\<rparr> =
     Some (Inl PlaywrightError, \<lparr>env = \<lparr>ps_pending = 0, ps_open = False\<rparr>,
                    trace = [ExpectVisible (First portal_table) (Some 1000)]\<rparr>)"
    using next_page_decision [where R = portal_locked and cfg = example_config and sc = SPage
        and w = "\<lparr>env = \<lparr>ps_pending = 0, ps_open = False\<rparr>, trace = []\<rparr>",
        THEN conjunct2, THEN conjunct2, THEN conjunct2, THEN conjunct2, THEN conjunct2,
        THEN conjunct2, THEN conjunct2, THEN conjunct2, rule_format,
        OF conjI [OF locked_resolve conjI [OF locked_done locked_next]]]
    by simp
  from a b c d e f g h i j show ?thesis by blast
qed

subsection \<open>Explicit teacher tabs\<close>

lemma best_effort_block_wait:
  "best_effort
     (let active_block = Loc mdl (sel_active_block_by_gh gh) in
      bnd (count R active_block) (\<lambda>n.
        if n \<noteq> 0 then act R (ExpectVisible (First active_block) (Some 5000)) else ret ())) w
   = Some (Inr (), block_wait R mdl gh w)"
  by (simp add: best_effort_def Let_def try_except_apply bnd_apply count_eq act_eq ret_apply
      block_wait_def split: sum.splits)

lemma explicit_tabs_loop_filter:
  "explicit_tabs_loop R cfg ms mdl tabs =
   explicit_tabs_loop R cfg ms mdl (filter (\<lambda>(gh, name). or_empty gh \<noteq> []) tabs)"
  by (induction tabs) auto

lemma loop_after_round:
  fixes body :: "unit \<Rightarrow> ('e, unit + 'r) prog"
  assumes "body () w = bnd m (\<lambda>_. ret (Inl ())) w'"
  shows "loop body () w = bnd m (\<lambda>_. loop body ()) w'"
proof (cases "m w'")
  case None
  then show ?thesis using assms by (subst loop.simps) (simp add: bnd_apply)
next
  case (Some p)
  obtain r w2 where p: "p = (r, w2)" by (cases p)
  show ?thesis
  proof (cases r)
    case (Inl ex)
    then show ?thesis using assms Some p by (subst loop.simps) (simp add: bnd_apply)
  next
    case (Inr u)
    then show ?thesis using assms Some p by (subst loop.simps) (simp add: bnd_apply ret_apply)
  qed
qed

lemma query_eq: "query q w = Some (q (env w), w)"
  by (simp add: query_def)

lemma bnd_assoc: "bnd (bnd m f) g = bnd m (\<lambda>x. bnd (f x) g)"
  by (rule ext) (simp add: bnd_def split: option.splits sum.splits prod.splits)

text \<open>
  Against claim C8 as worded.  The claim that each explicit tab is filled only after the
  wait for its active state and the wait for its content block does not hold as worded.
  On the example portal, whose modal has one explicit tab \<open>T1\<close>, the content block of
  \<open>T1\<close> has no match when the tab has become active: \<open>assist_page\<close> clicks the tab, waits
  for its active state, and goes on to fill the form; no call of the run waits for, or
  touches, the content block of \<open>T1\<close>.
\<close>

theorem explicit_tab_unwaited_counterexample:
  "rt_count (portal False) \<lparr>ps_pending = 1, ps_open = True\<rparr> (Loc (Root SPage) sel_title_teacher) = Inr 1 \<and>
   rt_tab_info (portal False) \<lparr>ps_pending = 1, ps_open = True\<rparr> (Loc (Root SPage) sel_title_teacher) =
     Inr [(Some (ascii ''T1''), ascii ''Teacher'')] \<and>
   rt_count (portal False) \<lparr>ps_pending = 1, ps_open = True\<rparr>
      (Loc portal_modal (sel_active_block_by_gh (ascii ''T1''))) = Inr 0 \<and>
   assist_page (portal False) example_config \<lparr>env = \<lparr>ps_pending = 1, ps_open = False\<rparr>, trace = []\<rparr> =
     Some (Inr (), \<lparr>env = \<lparr>ps_pending = 0, ps_open = False\<rparr>, trace = portal_trace\<rparr>) \<and>
   take 4 (drop 2 portal_trace) =
     [Click (OnLocator (First (Loc (Root SPage) (sel_tab_by_gh (ascii ''T1''))))) (Some 2000) False,
      ExpectVisible (Loc (Root SPage) (sel_active_tab_by_gh (ascii ''T1''))) (Some 5000),
      WaitForTimeout 50,
      ExpectVisible (Loc portal_modal (active_block example_selectors)) None] \<and>
   Fill (Loc (Loc portal_modal (active_block example_selectors)) (comment_textarea example_selectors))
     (ascii ''Good course.'') \<in> set portal_trace \<and>
   list_all (\<lambda>ev. event_target ev \<noteq>
                Some (OnLocator (First (Loc portal_modal (sel_active_block_by_gh (ascii ''T1'')))))
             \<and> event_target ev \<noteq>
                Some (OnLocator (Loc portal_modal (sel_active_block_by_gh (ascii ''T1'')))))
     portal_trace"
  apply (intro conjI)
        apply (simp add: portal_simps string_defs)
       apply (simp add: portal_simps string_defs)
      apply (simp add: portal_simps string_defs)
     apply (rule portal_run)
    apply (simp add: portal_trace_def)
   apply (simp add: portal_trace_def)
  apply (simp add: portal_trace_def event_target_def portal_simps string_defs)
  done

text \<open>
  Claim C8, amended.  In each round of the item loop of \<open>assist_page\<close>, once the pending
  button is clicked and the modal is found, and the explicit tabs have a nonzero match
  count, the list of their identifiers and names is read and gone through in order, and
  then the form is submitted.  Tabs with no or an empty identifier are passed over.  For
  each other tab: the tab is clicked with the click retrier, and an error of the click ends
  the flow; then the element marking the tab as active is waited for, for at most 5000
  milliseconds, and a failure of that wait ends the flow; then, only if the content block
  of that identifier has a nonzero match count, the block is waited for, for at most 5000
  milliseconds, whatever that wait or the count answers being dropped; then, after a pause
  of 50 milliseconds, the active block is filled.
\<close>

theorem explicit_tab_steps:
  "(\<forall>w0 sc tbl w1 r. wait_for_table R cfg 30000 w0 = Some (Inr (sc, tbl), w1) \<and>
      rt_count R (env w1) (Loc tbl (PStr (ascii ''tbody tr''))) = Inr r \<longrightarrow>
      assist_page R cfg w0 = loop (assist_item R cfg tbl) () w1) \<and>
   (\<forall>tbl w1 n c0 w2 c1 w3 c7 w4 w5 w6 w7 k tab_info.
      rt_count R (env w1) (Loc tbl (pending_button (selectors cfg))) = Inr n \<and> n \<noteq> 0 \<and>
      td_text R (Loc (Loc (First (Loc tbl (pending_button (selectors cfg)))) sel_ancestor_tr)
                   (PStr (ascii ''td''))) 0 w1 = Some (Inr c0, w2) \<and>
      td_text R (Loc (Loc (First (Loc tbl (pending_button (selectors cfg)))) sel_ancestor_tr)
                   (PStr (ascii ''td''))) 1 w2 = Some (Inr c1, w3) \<and>
      td_text R (Loc (Loc (First (Loc tbl (pending_button (selectors cfg)))) sel_ancestor_tr)
                   (PStr (ascii ''td''))) 7 w3 = Some (Inr c7, w4) \<and>
      safe_click R (First (Loc tbl (pending_button (selectors cfg)))) w4 = Some (Inr (), w5) \<and>
      wait_for_modal R cfg 30000 w5 = Some (Inr (ms, mdl), w6) \<and>
      wait_for_explicit_teacher_tabs R ms 5 w6 = Some (Inr explicit_tabs, w7) \<and>
      rt_count R (env w7) explicit_tabs = Inr k \<and> k \<noteq> 0 \<and>
      rt_tab_info R (env w7) explicit_tabs = Inr tab_info \<longrightarrow>
      loop (assist_item R cfg tbl) () w1 =
        bnd (explicit_tabs_loop R cfg ms mdl tab_info) (\<lambda>_.
        bnd (submit_and_confirm R cfg ms mdl) (\<lambda>_.
        loop (assist_item R cfg tbl) ())) w7) \<and>
   (\<forall>ex w1. safe_click R (First (Loc (Root ms) (sel_tab_by_gh gh))) w = Some (Inl ex, w1) \<longrightarrow>
      explicit_tab R cfg ms mdl gh w = Some (Inl ex, w1)) \<and>
   (\<forall>w1 ex w2. safe_click R (First (Loc (Root ms) (sel_tab_by_gh gh))) w = Some (Inr (), w1) \<and>
      act R (ExpectVisible (Loc (Root ms) (sel_active_tab_by_gh gh)) (Some 5000)) w1 = Some (Inl ex, w2) \<longrightarrow>
      explicit_tab R cfg ms mdl gh w = Some (Inl ex, w2)) \<and>
   (\<forall>w1 w2. safe_click R (First (Loc (Root ms) (sel_tab_by_gh gh))) w = Some (Inr (), w1) \<and>
      act R (ExpectVisible (Loc (Root ms) (sel_active_tab_by_gh gh)) (Some 5000)) w1 = Some (Inr (), w2) \<longrightarrow>
      explicit_tab R cfg ms mdl gh w =
        bnd (act R (WaitForTimeout 50)) (\<lambda>_. prefill_active_block R mdl cfg) (block_wait R mdl gh w2)) \<and>
   explicit_tabs_loop R cfg ms mdl tabs =
     explicit_tabs_loop R cfg ms mdl (filter (\<lambda>(g, name). or_empty g \<noteq> []) tabs) \<and>
   (or_empty g \<noteq> [] \<longrightarrow>
      explicit_tabs_loop R cfg ms mdl ((g, name) # tabs) =
        bnd (explicit_tab R cfg ms mdl (or_empty g)) (\<lambda>_. explicit_tabs_loop R cfg ms mdl tabs))"
proof (intro conjI allI impI)
  fix w0 sc tbl w1 r
  assume "wait_for_table R cfg 30000 w0 = Some (Inr (sc, tbl), w1) \<and>
      rt_count R (env w1) (Loc tbl (PStr (ascii ''tbody tr''))) = Inr r"
  then show "assist_page R cfg w0 = loop (assist_item R cfg tbl) () w1"
    by (simp add: assist_page_def bnd_apply count_eq)
next
  fix tbl w1 n c0 w2 c1 w3 c7 w4 w5 w6 w7 k tab_info
  assume h: "rt_count R (env w1) (Loc tbl (pending_button (selectors cfg))) = Inr n \<and> n \<noteq> 0 \<and>
      td_text R (Loc (Loc (First (Loc tbl (pending_button (selectors cfg)))) sel_ancestor_tr)
                   (PStr (ascii ''td''))) 0 w1 = Some (Inr c0, w2) \<and>
      td_text R (Loc (Loc (First (Loc tbl (pending_button (selectors cfg)))) sel_ancestor_tr)
                   (PStr (ascii ''td''))) 1 w2 = Some (Inr c1, w3) \<and>
      td_text R (Loc (Loc (First (Loc tbl (pending_button (selectors cfg)))) sel_ancestor_tr)
                   (PStr (ascii ''td''))) 7 w3 = Some (Inr c7, w4) \<and>
      safe_click R (First (Loc tbl (pending_button (selectors cfg)))) w4 = Some (Inr (), w5) \<and>
      wait_for_modal R cfg 30000 w5 = Some (Inr (ms, mdl), w6) \<and>
      wait_for_explicit_teacher_tabs R ms 5 w6 = Some (Inr explicit_tabs, w7) \<and>
      rt_count R (env w7) explicit_tabs = Inr k \<and> k \<noteq> 0 \<and>
      rt_tab_info R (env w7) explicit_tabs = Inr tab_info"
  have item: "assist_item R cfg tbl () w1 =
      bnd (bnd (explicit_tabs_loop R cfg ms mdl tab_info) (\<lambda>_. submit_and_confirm R cfg ms mdl))
        (\<lambda>_. ret (Inl ())) w7"
    using h unfolding assist_item_def Let_def
    by (simp add: bnd_apply [of "count R _"] bnd_apply [of "td_text R _ _"]
        bnd_apply [of "safe_click R _"] bnd_apply [of "wait_for_modal R _ _"]
        bnd_apply [of "wait_for_explicit_teacher_tabs R _ _"] bnd_apply [of "query _"]
        count_eq query_eq bnd_assoc)
  show "loop (assist_item R cfg tbl) () w1 =
        bnd (explicit_tabs_loop R cfg ms mdl tab_info) (\<lambda>_.
        bnd (submit_and_confirm R cfg ms mdl) (\<lambda>_.
        loop (assist_item R cfg tbl) ())) w7"
    using loop_after_round [of "assist_item R cfg tbl" w1
        "bnd (explicit_tabs_loop R cfg ms mdl tab_info) (\<lambda>_. submit_and_confirm R cfg ms mdl)" w7,
        OF item]
    by (simp add: bnd_assoc)
next
  fix ex w1
  assume "safe_click R (First (Loc (Root ms) (sel_tab_by_gh gh))) w = Some (Inl ex, w1)"
  then show "explicit_tab R cfg ms mdl gh w = Some (Inl ex, w1)"
    by (simp add: explicit_tab_def Let_def bnd_apply)
next
  fix w1 ex w2
  assume "safe_click R (First (Loc (Root ms) (sel_tab_by_gh gh))) w = Some (Inr (), w1) \<and>
      act R (ExpectVisible (Loc (Root ms) (sel_active_tab_by_gh gh)) (Some 5000)) w1 = Some (Inl ex, w2)"
  then show "explicit_tab R cfg ms mdl gh w = Some (Inl ex, w2)"
    by (simp add: explicit_tab_def Let_def bnd_apply)
next
  fix w1 w2
  assume h: "safe_click R (First (Loc (Root ms) (sel_tab_by_gh gh))) w = Some (Inr (), w1) \<and>
      act R (ExpectVisible (Loc (Root ms) (sel_active_tab_by_gh gh)) (Some 5000)) w1 = Some (Inr (), w2)"
  have "explicit_tab R cfg ms mdl gh w =
      bnd (best_effort
             (let active_block = Loc mdl (sel_active_block_by_gh gh) in
              bnd (count R active_block) (\<lambda>n.
                if n \<noteq> 0 then act R (ExpectVisible (First active_block) (Some 5000)) else ret ())))
        (\<lambda>_. bnd (act R (WaitForTimeout 50)) (\<lambda>_. prefill_active_block R mdl cfg)) w2"
    using h unfolding explicit_tab_def Let_def
    by (simp add: bnd_apply [of "safe_click R _"] bnd_apply [of "act R (ExpectVisible (Loc (Root ms) _) _)"])
  also have "\<dots> = bnd (act R (WaitForTimeout 50)) (\<lambda>_. prefill_active_block R mdl cfg) (block_wait R mdl gh w2)"
    unfolding bnd_apply [of "best_effort _"] best_effort_block_wait by simp
  finally show "explicit_tab R cfg ms mdl gh w =
        bnd (act R (WaitForTimeout 50)) (\<lambda>_. prefill_active_block R mdl cfg) (block_wait R mdl gh w2)" .
next
  show "explicit_tabs_loop R cfg ms mdl tabs =
     explicit_tabs_loop R cfg ms mdl (filter (\<lambda>(g, name). or_empty g \<noteq> []) tabs)"
    by (rule explicit_tabs_loop_filter)
next
  assume "or_empty g \<noteq> []"
  then show "explicit_tabs_loop R cfg ms mdl ((g, name) # tabs) =
        bnd (explicit_tab R cfg ms mdl (or_empty g)) (\<lambda>_. explicit_tabs_loop R cfg ms mdl tabs)"
    by simp
qed

lemma portal_modal_found:
  "wait_for_modal (portal paged) example_config 30000 \<lparr>env = \<lparr>ps_pending = n, ps_open = True\<rparr>, trace = tr\<rparr> =
     Some (Inr (SPage, portal_modal), \<lparr>env = \<lparr>ps_pending = n, ps_open = True\<rparr>, trace = tr\<rparr>)"
  unfolding wait_for_modal_def
  apply (simp add: run_simps)
  apply (subst loop.simps)
  apply (simp add: run_simps portal_simps)
  done

lemma portal_tabs_found:
  "wait_for_explicit_teacher_tabs (portal paged) SPage 5
       \<lparr>env = \<lparr>ps_pending = n, ps_open = True\<rparr>, trace = tr\<rparr> =
     Some (Inr (Loc (Root SPage) sel_title_teacher),
           \<lparr>env = \<lparr>ps_pending = n, ps_open = True\<rparr>, trace = tr\<rparr>)"
  unfolding wait_for_explicit_teacher_tabs_def
  apply (simp add: run_simps)
  apply (subst loop.simps)
  apply (simp add: run_simps portal_simps string_defs)
  done

lemma portal_item_opens:
  "rt_count (portal False) (env \<lparr>env = \<lparr>ps_pending = 1, ps_open = False\<rparr>,
        trace = [ExpectVisible (First portal_table) (Some 1000)]\<rparr>)
      (Loc (First portal_table) (pending_button (selectors example_config))) = Inr 1 \<and> (1 :: nat) \<noteq> 0 \<and>
   td_text (portal False)
      (Loc (Loc (First (Loc (First portal_table) (pending_button (selectors example_config))))
         sel_ancestor_tr) (PStr (ascii ''td''))) 0
      \<lparr>env = \<lparr>ps_pending = 1, ps_open = False\<rparr>,
        trace = [ExpectVisible (First portal_table) (Some 1000)]\<rparr> =
     Some (Inr [], \<lparr>env = \<lparr>ps_pending = 1, ps_open = False\<rparr>,
        trace = [ExpectVisible (First portal_table) (Some 1000)]\<rparr>) \<and>
   td_text (portal False)
      (Loc (Loc (First (Loc (First portal_table) (pending_button (selectors example_config))))
         sel_ancestor_tr) (PStr (ascii ''td''))) 1
      \<lparr>env = \<lparr>ps_pending = 1, ps_open = False\<rparr>,
        trace = [ExpectVisible (First portal_table) (Some 1000)]\<rparr> =
     Some (Inr [], \<lparr>env = \<lparr>ps_pending = 1, ps_open = False\<rparr>,
        trace = [ExpectVisible (First portal_table) (Some 1000)]\<rparr>) \<and>
   td_text (portal False)
      (Loc (Loc (First (Loc (First portal_table) (pending_button (selectors example_config))))
         sel_ancestor_tr) (PStr (ascii ''td''))) 7
      \<lparr>env = \<lparr>ps_pending = 1, ps_open = False\<rparr>,
        trace = [ExpectVisible (First portal_table) (Some 1000)]\<rparr> =
     Some (Inr [], \<lparr>env = \<lparr>ps_pending = 1, ps_open = False\<rparr>,
        trace = [ExpectVisible (First portal_table) (Some 1000)]\<rparr>) \<and>
   safe_click (portal False) (First (Loc (First portal_table) (pending_button (selectors example_config))))
      \<lparr>env = \<lparr>ps_pending = 1, ps_open = False\<rparr>,
        trace = [ExpectVisible (First portal_table) (Some 1000)]\<rparr> =
     Some (Inr (), \<lparr>env = \<lparr>ps_pending = 1, ps_open = True\<rparr>,
        trace = [ExpectVisible (First portal_table) (Some 1000),
                 Click (OnLocator (First portal_buttons)) (Some 2000) False]\<rparr>) \<and>
   wait_for_modal (portal False) example_config 30000
      \<lparr>env = \<lparr>ps_pending = 1, ps_open = True\<rparr>,
        trace = [ExpectVisible (First portal_table) (Some 1000),
                 Click (OnLocator (First portal_buttons)) (Some 2000) False]\<rparr> =
     Some (Inr (SPage, portal_modal), \<lparr>env = \<lparr>ps_pending = 1, ps_open = True\<rparr>,
        trace = [ExpectVisible (First portal_table) (Some 1000),
                 Click (OnLocator (First portal_buttons)) (Some 2000) False]\<rparr>) \<and>
   wait_for_explicit_teacher_tabs (portal False) SPage 5
      \<lparr>env = \<lparr>ps_pending = 1, ps_open = True\<rparr>,
        trace = [ExpectVisible (First portal_table) (Some 1000),
                 Click (OnLocator (First portal_buttons)) (Some 2000) False]\<rparr> =
     Some (Inr (Loc (Root SPage) sel_title_teacher), \<lparr>env = \<lparr>ps_pending = 1, ps_open = True\<rparr>,
        trace = [ExpectVisible (First portal_table) (Some 1000),
                 Click (OnLocator (First portal_buttons)) (Some 2000) False]\<rparr>) \<and>
   rt_count (portal False) (env \<lparr>env = \<lparr>ps_pending = 1, ps_open = True\<rparr>,
        trace = [ExpectVisible (First portal_table) (Some 1000),
                 Click (OnLocator (First portal_buttons)) (Some 2000) False]\<rparr>)
      (Loc (Root SPage) sel_title_teacher) = Inr 1 \<and> (1 :: nat) \<noteq> 0 \<and>
   rt_tab_info (portal False) (env \<lparr>env = \<lparr>ps_pending = 1, ps_open = True\<rparr>,
        trace = [ExpectVisible (First portal_table) (Some 1000),
                 Click (OnLocator (First portal_buttons)) (Some 2000) False]\<rparr>)
      (Loc (Root SPage) sel_title_teacher) = Inr [(Some (ascii ''T1''), ascii ''Teacher'')]"
  apply (intro conjI)
  apply (simp_all add: portal_modal_found portal_tabs_found)
  apply (simp_all add: run_simps td_text_def safe_click_def safe_click_on_def portal_simps string_defs)
  done

lemma tab_click_fails:
  "safe_click (detached_button :: unit runtime)
       (First (Loc (Root SPage) (sel_tab_by_gh (ascii ''T1'')))) empty_run =
     Some (Inl PlaywrightError,
           \<lparr>env = (), trace = [Click (OnLocator (First (Loc (Root SPage) (sel_tab_by_gh (ascii ''T1'')))))
                                  (Some 2000) False]\<rparr>)"
  by (simp add: safe_click_def safe_click_on_def run_simps detached_button_def idle_runtime_def
      empty_run_def)

lemma tab_click_ok:
  "safe_click (never_active :: unit runtime)
       (First (Loc (Root SPage) (sel_tab_by_gh (ascii ''T1'')))) empty_run =
     Some (Inr (),
           \<lparr>env = (), trace = [Click (OnLocator (First (Loc (Root SPage) (sel_tab_by_gh (ascii ''T1'')))))
                                  (Some 2000) False]\<rparr>)"
  by (simp add: safe_click_def safe_click_on_def run_simps never_active_def idle_runtime_def
      empty_run_def)

lemma tab_never_active:
  "act (never_active :: unit runtime)
       (ExpectVisible (Loc (Root SPage) (sel_active_tab_by_gh (ascii ''T1''))) (Some 5000))
       \<lparr>env = (), trace = [Click (OnLocator (First (Loc (Root SPage) (sel_tab_by_gh (ascii ''T1'')))))
                              (Some 2000) False]\<rparr> =
     Some (Inl AssertionError,
           \<lparr>env = (), trace = [Click (OnLocator (First (Loc (Root SPage) (sel_tab_by_gh (ascii ''T1'')))))
                                  (Some 2000) False,
                                ExpectVisible (Loc (Root SPage) (sel_active_tab_by_gh (ascii ''T1'')))
                                  (Some 5000)]\<rparr>)"
  by (simp add: run_simps never_active_def idle_runtime_def)

lemma hidden_click_ok:
  "safe_click (hidden_block :: unit runtime)
       (First (Loc (Root SPage) (sel_tab_by_gh (ascii ''T1'')))) empty_run =
     Some (Inr (),
           \<lparr>env = (), trace = [Click (OnLocator (First (Loc (Root SPage) (sel_tab_by_gh (ascii ''T1'')))))
                                  (Some 2000) False]\<rparr>)"
  by (simp add: safe_click_def safe_click_on_def run_simps hidden_block_def page_with_def
      idle_runtime_def empty_run_def)

lemma hidden_tab_active:
  "act (hidden_block :: unit runtime)
       (ExpectVisible (Loc (Root SPage) (sel_active_tab_by_gh (ascii ''T1''))) (Some 5000))
       \<lparr>env = (), trace = [Click (OnLocator (First (Loc (Root SPage) (sel_tab_by_gh (ascii ''T1'')))))
                              (Some 2000) False]\<rparr> =
     Some (Inr (),
           \<lparr>env = (), trace = [Click (OnLocator (First (Loc (Root SPage) (sel_tab_by_gh (ascii ''T1'')))))
                                  (Some 2000) False,
                                ExpectVisible (Loc (Root SPage) (sel_active_tab_by_gh (ascii ''T1'')))
                                  (Some 5000)]\<rparr>)"
  by (simp add: run_simps hidden_block_def page_with_def idle_runtime_def portal_modal_def
      string_defs)

theorem explicit_tab_steps_witness:
  "assist_page (portal False) example_config \<lparr>env = \<lparr>ps_pending = 1, ps_open = False\<rparr>, trace = []\<rparr> =
     loop (assist_item (portal False) example_config (First portal_table)) ()
       \<lparr>env = \<lparr>ps_pending = 1, ps_open = False\<rparr>,
        trace = [ExpectVisible (First portal_table) (Some 1000)]\<rparr> \<and>
   loop (assist_item (portal False) example_config (First portal_table)) ()
       \<lparr>env = \<lparr>ps_pending = 1, ps_open = False\<rparr>,
        trace = [ExpectVisible (First portal_table) (Some 1000)]\<rparr> =
     bnd (explicit_tabs_loop (portal False) example_config SPage portal_modal
            [(Some (ascii ''T1''), ascii ''Teacher'')]) (\<lambda>_.
     bnd (submit_and_confirm (portal False) example_config SPage portal_modal) (\<lambda>_.
     loop (assist_item (portal False) example_config (First portal_table)) ()))
       \<lparr>env = \<lparr>ps_pending = 1, ps_open = True\<rparr>,
        trace = [ExpectVisible (First portal_table) (Some 1000),
                 Click (OnLocator (First portal_buttons)) (Some 2000) False]\<rparr> \<and>
   explicit_tab detached_button example_config SPage portal_modal (ascii ''T1'') empty_run =
     Some (Inl PlaywrightError,
           \<lparr>env = (), trace = [Click (OnLocator (First (Loc (Root SPage) (sel_tab_by_gh (ascii ''T1'')))))
                                  (Some 2000) False]\<rparr>) \<and>
   explicit_tab never_active example_config SPage portal_modal (ascii ''T1'') empty_run =
     Some (Inl AssertionError,
           \<lparr>env = (), trace = [Click (OnLocator (First (Loc (Root SPage) (sel_tab_by_gh (ascii ''T1'')))))
                                  (Some 2000) False,
                                ExpectVisible (Loc (Root SPage) (sel_active_tab_by_gh (ascii ''T1'')))
                                  (Some 5000)]\<rparr>) \<and>
   explicit_tab hidden_block example_config SPage portal_modal (ascii ''T1'') empty_run =
     bnd (act hidden_block (WaitForTimeout 50)) (\<lambda>_. prefill_active_block hidden_block portal_modal example_config)
       \<lparr>env = (), trace = [Click (OnLocator (First (Loc (Root SPage) (sel_tab_by_gh (ascii ''T1'')))))
                                  (Some 2000) False,
                            ExpectVisible (Loc (Root SPage) (sel_active_tab_by_gh (ascii ''T1'')))
                                  (Some 5000),
                            ExpectVisible (First (Loc portal_modal (sel_active_block_by_gh (ascii ''T1''))))
                                  (Some 5000)]\<rparr> \<and>
   explicit_tabs_loop (idle_runtime :: unit runtime) example_config SPage portal_modal
       [(None, ascii ''A''), (Some (ascii ''T1''), ascii ''B''), (Some [], ascii ''C'')] =
     bnd (explicit_tab idle_runtime example_config SPage portal_modal (ascii ''T1'')) (\<lambda>_. ret ())"
proof -
  note steps = explicit_tab_steps [where ms = SPage and mdl = portal_modal and gh = "ascii ''T1''"
      and cfg = example_config and w = empty_run]
  have a: "explicit_tab detached_button example_config SPage portal_modal (ascii ''T1'') empty_run =
     Some (Inl PlaywrightError,
           \<lparr>env = (), trace = [Click (OnLocator (First (Loc (Root SPage) (sel_tab_by_gh (ascii ''T1'')))))
                                  (Some 2000) False]\<rparr>)"
    using steps [where R = "detached_button :: unit runtime", THEN conjunct2, THEN conjunct2, THEN conjunct1, rule_format,
        OF tab_click_fails] .
  have b: "explicit_tab never_active example_config SPage portal_modal (ascii ''T1'') empty_run =
     Some (Inl AssertionError,
           \<lparr>env = (), trace = [Click (OnLocator (First (Loc (Root SPage) (sel_tab_by_gh (ascii ''T1'')))))
                                  (Some 2000) False,
                                ExpectVisible (Loc (Root SPage) (sel_active_tab_by_gh (ascii ''T1'')))
                                  (Some 5000)]\<rparr>)"
    using steps [where R = "never_active :: unit runtime", THEN conjunct2, THEN conjunct2,
        THEN conjunct2, THEN conjunct1, rule_format,
        OF conjI [OF tab_click_ok tab_never_active]] .
  have c0: "explicit_tab hidden_block example_config SPage portal_modal (ascii ''T1'') empty_run =
     bnd (act hidden_block (WaitForTimeout 50)) (\<lambda>_. prefill_active_block hidden_block portal_modal example_config)
       (block_wait (hidden_block :: unit runtime) portal_modal (ascii ''T1'')
          \<lparr>env = (), trace = [Click (OnLocator (First (Loc (Root SPage) (sel_tab_by_gh (ascii ''T1'')))))
                                  (Some 2000) False,
                                ExpectVisible (Loc (Root SPage) (sel_active_tab_by_gh (ascii ''T1'')))
                                  (Some 5000)]\<rparr>)"
    using steps [where R = "hidden_block :: unit runtime", THEN conjunct2, THEN conjunct2,
        THEN conjunct2, THEN conjunct2, THEN conjunct1,
        rule_format, OF conjI [OF hidden_click_ok hidden_tab_active]] .
  have c1: "block_wait (hidden_block :: unit runtime) portal_modal (ascii ''T1'')
          \<lparr>env = (), trace = [Click (OnLocator (First (Loc (Root SPage) (sel_tab_by_gh (ascii ''T1'')))))
                                  (Some 2000) False,
                                ExpectVisible (Loc (Root SPage) (sel_active_tab_by_gh (ascii ''T1'')))
                                  (Some 5000)]\<rparr> =
       \<lparr>env = (), trace = [Click (OnLocator (First (Loc (Root SPage) (sel_tab_by_gh (ascii ''T1'')))))
                                  (Some 2000) False,
                            ExpectVisible (Loc (Root SPage) (sel_active_tab_by_gh (ascii ''T1'')))
                                  (Some 5000),
                            ExpectVisible (First (Loc portal_modal (sel_active_block_by_gh (ascii ''T1''))))
                                  (Some 5000)]\<rparr>"
    by (simp add: block_wait_def hidden_block_def page_with_def idle_runtime_def)
  note c = c0 [unfolded c1]
  have d: "explicit_tabs_loop (idle_runtime :: unit runtime) example_config SPage portal_modal
       [(None, ascii ''A''), (Some (ascii ''T1''), ascii ''B''), (Some [], ascii ''C'')] =
     bnd (explicit_tab idle_runtime example_config SPage portal_modal (ascii ''T1'')) (\<lambda>_. ret ())"
  proof -
    have "explicit_tabs_loop (idle_runtime :: unit runtime) example_config SPage portal_modal
       [(None, ascii ''A''), (Some (ascii ''T1''), ascii ''B''), (Some [], ascii ''C'')] =
       explicit_tabs_loop idle_runtime example_config SPage portal_modal [(Some (ascii ''T1''), ascii ''B'')]"
      using explicit_tab_steps [where R = "idle_runtime :: unit runtime" and cfg = example_config
          and ms = SPage and mdl = portal_modal
          and tabs = "[(None, ascii ''A''), (Some (ascii ''T1''), ascii ''B''), (Some [], ascii ''C'')]",
          THEN conjunct2, THEN conjunct2, THEN conjunct2, THEN conjunct2, THEN conjunct2,
          THEN conjunct1]
      by (simp add: or_empty_def ascii_def)
    also have "\<dots> = bnd (explicit_tab idle_runtime example_config SPage portal_modal (ascii ''T1''))
        (\<lambda>_. explicit_tabs_loop idle_runtime example_config SPage portal_modal [])"
      using explicit_tab_steps [where R = "idle_runtime :: unit runtime" and cfg = example_config
          and ms = SPage and mdl = portal_modal and g = "Some (ascii ''T1'')" and name = "ascii ''B''"
          and tabs = "[]",
          THEN conjunct2, THEN conjunct2, THEN conjunct2, THEN conjunct2, THEN conjunct2,
          THEN conjunct2]
      by (simp add: or_empty_def ascii_def)
    finally show ?thesis by simp
  qed
  have p0: "wait_for_table (portal False) example_config 30000
         \<lparr>env = \<lparr>ps_pending = 1, ps_open = False\<rparr>, trace = []\<rparr> =
       Some (Inr (SPage, First portal_table),
             \<lparr>env = \<lparr>ps_pending = 1, ps_open = False\<rparr>,
              trace = [ExpectVisible (First portal_table) (Some 1000)]\<rparr>) \<and>
     rt_count (portal False)
        (env \<lparr>env = \<lparr>ps_pending = 1, ps_open = False\<rparr>,
              trace = [ExpectVisible (First portal_table) (Some 1000)]\<rparr>)
        (Loc (First portal_table) (PStr (ascii ''tbody tr''))) = Inr 1"
    apply (intro conjI)
     apply (simp add: portal_wait_for_table)
    apply (simp add: portal_simps)
    done
  have p: "assist_page (portal False) example_config
       \<lparr>env = \<lparr>ps_pending = 1, ps_open = False\<rparr>, trace = []\<rparr> =
     loop (assist_item (portal False) example_config (First portal_table)) ()
       \<lparr>env = \<lparr>ps_pending = 1, ps_open = False\<rparr>,
        trace = [ExpectVisible (First portal_table) (Some 1000)]\<rparr>"
    by (rule explicit_tab_steps [THEN conjunct1, rule_format, OF p0])
  have q: "loop (assist_item (portal False) example_config (First portal_table)) ()
       \<lparr>env = \<lparr>ps_pending = 1, ps_open = False\<rparr>,
        trace = [ExpectVisible (First portal_table) (Some 1000)]\<rparr> =
     bnd (explicit_tabs_loop (portal False) example_config SPage portal_modal
            [(Some (ascii ''T1''), ascii ''Teacher'')]) (\<lambda>_.
     bnd (submit_and_confirm (portal False) example_config SPage portal_modal) (\<lambda>_.
     loop (assist_item (portal False) example_config (First portal_table)) ()))
       \<lparr>env = \<lparr>ps_pending = 1, ps_open = True\<rparr>,
        trace = [ExpectVisible (First portal_table) (Some 1000),
                 Click (OnLocator (First portal_buttons)) (Some 2000) False]\<rparr>"
    using explicit_tab_steps [where R = "portal False" and cfg = example_config and ms = SPage
        and mdl = portal_modal, THEN conjunct2, THEN conjunct1, rule_format, OF portal_item_opens] .
  from p q a b c d show ?thesis by blast
qed

subsection \<open>Loading the configuration\<close>






end
